theory Spec2Isabelle
  imports Main
begin

section \<open>cloudflare-router: shared vocabulary\<close>

text \<open>
  The repository holds three revisions of the router side by side:
  \<^item> the legacy dispatcher \<^verbatim>\<open>src/src/Router.ts\<close> with \<^verbatim>\<open>src/src/RouterResponse.ts\<close>
    and \<^verbatim>\<open>src/src/RouterRequest.ts\<close>; its definitions carry the suffix \<open>_L\<close>;
  \<^item> the rewrite in \<^verbatim>\<open>src/src/router/\<close> (\<^verbatim>\<open>Router.ts\<close>, \<^verbatim>\<open>Route.ts\<close>,
    \<^verbatim>\<open>RoutePath.ts\<close>, \<^verbatim>\<open>RouterRequest.ts\<close>); where it differs from the next one its
    definitions carry the suffix \<open>_R\<close>;
  \<^item> the documented rewrite in \<^verbatim>\<open>src/unnamed/part_000\<close> (Route), \<^verbatim>\<open>part_001\<close>
    (RouterRequest, Router) and \<^verbatim>\<open>part_002\<close> (RouterResponse); its definitions carry
    the source's plain names.
\<close>

datatype methods = ANY | GET | POST | PUT | PATCH | OPTIONS | HEAD | DELETE

text \<open>
  The match object of the external \<^verbatim>\<open>url-pattern\<close> package: parameter names with the
  text they matched. The package itself is not part of the repository, so the matcher is a
  parameter of every function that matches: \<open>U p x\<close> stands for
  \<^verbatim>\<open>new UrlPattern(p).match(x)\<close>, \<open>None\<close> for its \<^verbatim>\<open>null\<close>.
\<close>

type_synonym params = "(string \<times> string) list"
type_synonym urlpattern = "string \<Rightarrow> string \<Rightarrow> params option"

subsection \<open>JavaScript string helpers\<close>

definition startsWith :: "string \<Rightarrow> string \<Rightarrow> bool" where
  "startsWith s t = (take (length t) s = t)"

definition endsWith :: "string \<Rightarrow> string \<Rightarrow> bool" where
  "endsWith s t = (length t \<le> length s \<and> drop (length s - length t) s = t)"

text \<open>\<^verbatim>\<open>s.slice(a, b)\<close> for indices within the string; empty when \<open>b \<le> a\<close>.\<close>

definition slice :: "string \<Rightarrow> nat \<Rightarrow> nat \<Rightarrow> string" where
  "slice s a b = take (b - a) (drop a s)"

definition NO_APPEND_SLASH_IF_CHARACTERS :: "string list" where
  "NO_APPEND_SLASH_IF_CHARACTERS = [''*'', '')'', ''?'']"

subsection \<open>Path fixing\<close>

text \<open>
  \<^verbatim>\<open>Router.fixPath\<close> (part_001, lines 165-176; the same text in
  \<^verbatim>\<open>src/src/router/Router.ts\<close>, lines 74-84). The first argument is \<^verbatim>\<open>this.basePath\<close>.
\<close>

definition fixPath :: "string \<Rightarrow> string \<Rightarrow> string" where
  "fixPath basePath inputPath =
     (let fixedPath = basePath @ (if startsWith inputPath ''/'' then drop 1 inputPath else inputPath)
      in if \<not> endsWith fixedPath ''/''
            \<and> \<not> list_ex (\<lambda>char. endsWith fixedPath char) NO_APPEND_SLASH_IF_CHARACTERS
         then fixedPath @ ''/''
         else fixedPath)"

text \<open>
  The legacy router keeps \<^verbatim>\<open>basePath: string | null\<close>; \<^verbatim>\<open>this.basePath || ""\<close> reads it.
\<close>

definition orEmpty :: "string option \<Rightarrow> string" where
  "orEmpty b = (case b of None \<Rightarrow> '''' | Some s \<Rightarrow> s)"

text \<open>\<^verbatim>\<open>fixHandlerPath\<close> and \<^verbatim>\<open>fixUsePath\<close> of \<^verbatim>\<open>src/src/Router.ts\<close>, lines 238-249.\<close>

definition fixHandlerPath :: "string option \<Rightarrow> string \<Rightarrow> string" where
  "fixHandlerPath basePath inputPath =
     orEmpty basePath @
       (if endsWith inputPath ''/'' then inputPath
        else if \<not> list_ex (\<lambda>char. endsWith inputPath char) NO_APPEND_SLASH_IF_CHARACTERS
        then inputPath @ ''/''
        else inputPath)"

definition fixUsePath :: "string option \<Rightarrow> string \<Rightarrow> string" where
  "fixUsePath basePath arg0 =
     orEmpty basePath @ ''/'' @
       slice arg0 (if startsWith arg0 ''/'' then 1 else 0)
                  (if endsWith arg0 ''/'' then length arg0 - 1 else length arg0)"

section \<open>Handlers, host responses, errors and promises\<close>

text \<open>
  A route handler is a JavaScript function. What the dispatcher observes of one call is
  how the function changes the contexts it is handed and what it does with the
  continuation callback: it calls it (with an argument, or with none), it comes back
  without ever calling it, or it throws (or rejects) before calling it. \<open>fn_length\<close> is the
  function's \<^verbatim>\<open>length\<close>, its number of declared parameters. Handlers are referred to by
  identifier (a JavaScript object reference); a table \<open>F\<close> gives each identifier its function.
\<close>

datatype signal = Called "bool option" | NeverCalled | Threw

record 'c fn =
  fn_length :: nat
  fn_body :: "'c \<Rightarrow> signal \<times> 'c"

datatype handler = HFn nat | HRouter nat

text \<open>
  The host runtime's \<^verbatim>\<open>Response\<close>: built by \<^verbatim>\<open>new Response(body, init)\<close>, by
  \<^verbatim>\<open>Response.redirect(url, status)\<close>, or handed in ready-made by the caller.
\<close>

datatype response =
    Response "string option" int string "(string \<times> string) list"
  | Redirect string int
  | Custom nat

datatype error =
    NoResponseHandler
  | MainRouterAlreadyAssigned
  | TopLevelNotMain
  | HandlerThrew
  | TypeError
  | RangeError
  | UseNeedsSecondArgument
  | NoRedirectUrl
  | NoCustomResponse
  | NoFinalResponse
  | ResponseHandlerIsRouter

text \<open>
  The constructors of \<^verbatim>\<open>Response\<close> belong to the host, not to the repository, and they
  throw on arguments they refuse: a \<open>RangeError\<close> for a status outside 200 to 599 (for
  \<^verbatim>\<open>Response.redirect\<close>, a status that is not a redirect status), a \<open>TypeError\<close> for a
  body with a null-body status, a status text or header that is not valid, or a URL that
  does not parse. So the runtime is a parameter of every function that builds a
  response: \<open>newResponse H body status statusText headers\<close> stands for
  \<^verbatim>\<open>new Response(body, { status, statusText, headers: new Headers(headers) })\<close> and
  \<open>redirectResponse H url status\<close> for \<^verbatim>\<open>Response.redirect(url, status)\<close>, with \<open>Inl\<close>
  for what they throw and \<open>None\<close> for an argument that is \<^verbatim>\<open>undefined\<close>.
\<close>

record runtime =
  newResponse :: "string option \<Rightarrow> int \<Rightarrow> string \<Rightarrow> (string \<times> string) list \<Rightarrow> error + response"
  redirectResponse :: "string option \<Rightarrow> int option \<Rightarrow> error + response"

text \<open>
  A custom response builder is a caller's JavaScript function. It is handed the mutable
  response object, it may throw, and it may keep state of its own between calls, so
  that two calls with the same argument need not answer the same. One call is
  \<open>answer b r\<close>: what the function returns or throws, beside the response object as it
  left it; \<open>after b r\<close> is the function as that call left it.
\<close>

codatatype 'r builder =
  Builder (answer: "'r \<Rightarrow> (error + response option) \<times> 'r") (after: "'r \<Rightarrow> 'r builder")

text \<open>
  The state of the promise an \<^verbatim>\<open>async\<close> method returns: it resolves, it rejects, or it
  never settles. Recursion over the router graph takes the depth of call stack that is
  left; running out of it is the runtime's \<open>RangeError\<close>.
\<close>

datatype 'a promise = Resolved 'a | Rejected error | Pending

text \<open>\<^verbatim>\<open>xs.find(s => !!s)\<close> on an array of objects: its first element.\<close>

definition firstTruthy :: "'a list \<Rightarrow> 'a option" where
  "firstTruthy xs = (case xs of [] \<Rightarrow> None | x # _ \<Rightarrow> Some x)"

text \<open>\<^verbatim>\<open>headers[name] = value\<close> on a \<^verbatim>\<open>Record<string, string>\<close>.\<close>

definition setKey :: "string \<Rightarrow> string \<Rightarrow> (string \<times> string) list \<Rightarrow> (string \<times> string) list" where
  "setKey k v kvs = (if k \<in> set (map fst kvs)
                     then map (\<lambda>(k', v'). if k' = k then (k', v) else (k', v')) kvs
                     else kvs @ [(k, v)])"

section \<open>The rewritten router: data\<close>

text \<open>
  \<^verbatim>\<open>Route\<close> (part_000) with its \<^verbatim>\<open>RoutePath\<close>: \<open>route_router\<close> is the owning router,
  \<open>inputPath\<close> and \<open>fixedPath\<close> are the fields of \<^verbatim>\<open>route.path\<close>; its \<^verbatim>\<open>urlPattern\<close> is
  \<^verbatim>\<open>new UrlPattern(fixedPath)\<close>, so matching reads \<open>fixedPath\<close>. The field
  \<^verbatim>\<open>isHandlerRouter\<close> is set once from the handler and is the function \<open>isHandlerRouter\<close>
  below.
\<close>

record route =
  route_router :: nat
  route_method :: methods
  inputPath :: string
  fixedPath :: string
  route_handler :: handler
  isMiddleware :: bool
  routeIndex :: int

text \<open>
  \<^verbatim>\<open>RouterRequest\<close>: the fields the router reads or writes. The query, body, header and
  cookie fields are left out; nothing in the router reads them.
\<close>

record routerRequest =
  req_url :: string
  req_path :: string
  req_method :: methods
  matchedParams :: "params option"
  req_matchedRoute :: "route option"

datatype responseType = normal | redirect | custom

text \<open>
  The object \<^verbatim>\<open>responseOptions\<close> of a \<^verbatim>\<open>RouterResponse\<close>, declared with the same
  fields in \<^verbatim>\<open>src/src/RouterResponse.ts\<close> (lines 25-69) and in part_002 (lines 32-76);
  \<open>rtype\<close> is its \<^verbatim>\<open>type\<close>. Tasks are promises, referred to by identifier.
\<close>

record responseOptions =
  rtype :: responseType
  status :: string
  statusCode :: int
  headers :: "(string \<times> string) list"
  tasks :: "nat list"
  body :: "string option"
  redirectToUrl :: "string option"
  redirectStatusCode :: "int option"
  customResponse :: "response option"

text \<open>
  \<^verbatim>\<open>RouterResponse\<close> (part_002): \<^verbatim>\<open>responseOptions\<close>, \<^verbatim>\<open>matchedRoute\<close> and
  \<^verbatim>\<open>locals\<close>. Its \<^verbatim>\<open>routerRequest\<close> is a reference: request and response travel
  together as the pair \<open>ctx\<close>.
\<close>

record routerResponse = responseOptions +
  res_matchedRoute :: "route option"
  locals :: "(string \<times> string) list"

type_synonym ctx = "routerRequest \<times> routerResponse"

text \<open>
  \<^verbatim>\<open>Router\<close> (part_001). \<^verbatim>\<open>isWaterfallHandling\<close> is never read and is left out. Routers
  are JavaScript objects that refer to each other (a route's handler, \<^verbatim>\<open>parentRouter\<close>),
  so they live in a store addressed by identifier, next to the module-level counter
  \<^verbatim>\<open>lastRouteIndex\<close> of part_000.
\<close>

record router =
  basePath :: string
  routes :: "route list"
  parentRouter :: "nat option"
  mainRouter :: "nat option"
  isMainRouter :: bool
  customResponseBuilder :: "routerResponse builder option"

record world =
  routers :: "nat \<Rightarrow> router"
  lastRouteIndex :: int

text \<open>
  \<^verbatim>\<open>BuiltResponseObject\<close>: the tasks and the response. Its \<^verbatim>\<open>routerRequest\<close> and
  \<^verbatim>\<open>routerResponse\<close> fields are references to the contexts, which every function below
  returns beside it.
\<close>

record builtResponse =
  b_tasks :: "nat list"
  b_response :: "response option"

text \<open>
  What one dispatch did: the state of the promise it returned, the contexts as it left
  them (none when they were never made), the store as it left it, and a log kept for the
  proofs: the middleware routes whose chain step was run, in order, and whether the
  response handler was called. The types of the contexts, of the routes and of the store
  differ between the legacy router and the rewrite.
\<close>

record ('c, 'r, 'w) dispatch =
  outcome :: "builtResponse promise"
  contexts :: "'c option"
  store :: "'w"
  steps :: "'r list"
  terminalRan :: bool

record routeOptions =
  o_path :: string
  o_handler :: handler
  o_method :: methods
  o_isMiddleware :: bool
  o_routeIndex :: "int option"

section \<open>The rewritten router: registration\<close>

text \<open>\<^verbatim>\<open>new Router(options)\<close>, part_001 lines 136-144.\<close>

definition newRouter :: "string option \<Rightarrow> nat option \<Rightarrow> routerResponse builder option \<Rightarrow> router" where
  "newRouter optBasePath optParent optBuilder =
     \<lparr> basePath = (case optBasePath of None \<Rightarrow> ''/'' | Some b \<Rightarrow> b),
       routes = [],
       parentRouter = optParent,
       mainRouter = None,
       isMainRouter = False,
       customResponseBuilder = optBuilder \<rparr>"

definition updRouter :: "world \<Rightarrow> nat \<Rightarrow> (router \<Rightarrow> router) \<Rightarrow> world" where
  "updRouter w this f = w\<lparr>routers := (routers w)(this := f (routers w this))\<rparr>"

text \<open>
  \<^verbatim>\<open>Route.isRouteMiddleware\<close> and \<^verbatim>\<open>Route.isRouteHandlerRouter\<close> (part_000, lines
  107-117). The first reads \<^verbatim>\<open>this.isMiddleware\<close>, passed as the second argument.
\<close>

definition isRouteMiddleware :: "handler \<Rightarrow> bool \<Rightarrow> bool" where
  "isRouteMiddleware h thisIsMiddleware = (case h of HRouter _ \<Rightarrow> False | HFn _ \<Rightarrow> thisIsMiddleware)"

definition isRouteHandlerRouter :: "handler \<Rightarrow> bool" where
  "isRouteHandlerRouter h = (case h of HRouter _ \<Rightarrow> True | HFn _ \<Rightarrow> False)"

definition isHandlerRouter :: "route \<Rightarrow> bool" where
  "isHandlerRouter r = isRouteHandlerRouter (route_handler r)"

text \<open>
  \<^verbatim>\<open>Router.createRoute\<close>, that is the \<^verbatim>\<open>Route\<close> constructor (part_000, lines 91-100).
  When the constructor calls \<^verbatim>\<open>isRouteMiddleware\<close> the field \<^verbatim>\<open>this.isMiddleware\<close> is
  still undefined. \<^verbatim>\<open>options.routeIndex || lastRouteIndex++\<close> takes a fresh index when the
  option is absent and also when it is \<open>0\<close>.
\<close>

definition createRoute :: "world \<Rightarrow> nat \<Rightarrow> routeOptions \<Rightarrow> route \<times> world" where
  "createRoute w this options =
     (let given = (case o_routeIndex options of None \<Rightarrow> 0 | Some i \<Rightarrow> i)
      in (\<lparr> route_router = this,
             route_method = o_method options,
             inputPath = o_path options,
             fixedPath = fixPath (basePath (routers w this)) (o_path options),
             route_handler = o_handler options,
             isMiddleware = (o_isMiddleware options \<or> isRouteMiddleware (o_handler options) False),
             routeIndex = (if given \<noteq> 0 then given else lastRouteIndex w) \<rparr>,
          if given \<noteq> 0 then w else w\<lparr>lastRouteIndex := lastRouteIndex w + 1\<rparr>))"

definition createRouteAndAdd :: "world \<Rightarrow> nat \<Rightarrow> routeOptions \<Rightarrow> route \<times> world" where
  "createRouteAndAdd w this options =
     (let (createdRoute, w') = createRoute w this options
      in (createdRoute, updRouter w' this (\<lambda>r. r\<lparr>routes := routes r @ [createdRoute]\<rparr>)))"

text \<open>\<^verbatim>\<open>Router.updateSelfRoutes\<close> (part_001, lines 181-197): its loop, then the assignment.\<close>

fun updateSelfRoutes_loop :: "world \<Rightarrow> nat \<Rightarrow> route list \<Rightarrow> route list \<Rightarrow> route list \<times> world" where
  "updateSelfRoutes_loop w this newRoutes [] = (newRoutes, w)"
| "updateSelfRoutes_loop w this newRoutes (oldRoute # rest) =
     (let (newRoute, w') = createRoute w this
            \<lparr> o_path = inputPath oldRoute,
              o_handler = route_handler oldRoute,
              o_method = route_method oldRoute,
              o_isMiddleware = isMiddleware oldRoute,
              o_routeIndex = Some (routeIndex oldRoute) \<rparr>
      in updateSelfRoutes_loop w' this (newRoutes @ [newRoute]) rest)"

definition updateSelfRoutes :: "world \<Rightarrow> nat \<Rightarrow> world" where
  "updateSelfRoutes w this =
     (let (newRoutes, w') = updateSelfRoutes_loop w this [] (routes (routers w this))
      in updRouter w' this (\<lambda>r. r\<lparr>routes := newRoutes\<rparr>))"

text \<open>\<^verbatim>\<open>Router.init\<close> (part_001, lines 152-158).\<close>

definition init :: "world \<Rightarrow> nat \<Rightarrow> string \<Rightarrow> nat option \<Rightarrow> world" where
  "init w this newBasePath parent =
     (let w1 = updRouter w this (\<lambda>r. r\<lparr>basePath := ''/''\<rparr>);
          w2 = updRouter w1 this (\<lambda>r. r\<lparr>basePath :=
                  fixPath (basePath (routers w1 this)) (if newBasePath = [] then ''/'' else newBasePath)\<rparr>);
          w3 = updRouter w2 this (\<lambda>r. r\<lparr>parentRouter := parent\<rparr>)
      in updateSelfRoutes w3 this)"

text \<open>
  \<^verbatim>\<open>Router.use(arg0, arg1?)\<close> (part_001, lines 232-253). The calls it is typed for: a path
  with a handler, a handler alone, and two handlers (as \<^verbatim>\<open>useBulk\<close> makes for an entry
  without a path), where the second is the one used.
\<close>

datatype use_args = PathAnd string handler | HandlerOnly handler | HandlerAnd handler handler

definition use :: "world \<Rightarrow> nat \<Rightarrow> use_args \<Rightarrow> world" where
  "use w this args =
     (let useHandler = (case args of PathAnd _ h \<Rightarrow> h | HandlerOnly h \<Rightarrow> h | HandlerAnd _ h \<Rightarrow> h);
          usePath0 = (case args of PathAnd p _ \<Rightarrow> p | HandlerOnly _ \<Rightarrow> ''/'' | HandlerAnd _ _ \<Rightarrow> ''/'');
          usePath = fixPath (basePath (routers w this)) usePath0;
          w1 = (case useHandler of HRouter child \<Rightarrow> init w child usePath (Some this) | HFn _ \<Rightarrow> w)
      in snd (createRouteAndAdd w1 this
                \<lparr> o_path = usePath, o_handler = useHandler, o_method = ANY,
                  o_isMiddleware = True, o_routeIndex = None \<rparr>))"

text \<open>\<^verbatim>\<open>get\<close>, \<^verbatim>\<open>post\<close>, \<^verbatim>\<open>options\<close>, \<^verbatim>\<open>head\<close>, \<^verbatim>\<open>delete\<close>, \<^verbatim>\<open>any\<close> (part_001, lines 316-393).\<close>

definition addHandler :: "methods \<Rightarrow> world \<Rightarrow> nat \<Rightarrow> string \<Rightarrow> handler \<Rightarrow> world" where
  "addHandler m w this path h =
     snd (createRouteAndAdd w this
            \<lparr> o_path = path, o_handler = h, o_method = m, o_isMiddleware = False, o_routeIndex = None \<rparr>)"

definition get :: "world \<Rightarrow> nat \<Rightarrow> string \<Rightarrow> handler \<Rightarrow> world" where
  "get = addHandler GET"

definition post :: "world \<Rightarrow> nat \<Rightarrow> string \<Rightarrow> handler \<Rightarrow> world" where
  "post = addHandler POST"

definition options :: "world \<Rightarrow> nat \<Rightarrow> string \<Rightarrow> handler \<Rightarrow> world" where
  "options = addHandler OPTIONS"

definition head :: "world \<Rightarrow> nat \<Rightarrow> string \<Rightarrow> handler \<Rightarrow> world" where
  "head = addHandler HEAD"

definition delete :: "world \<Rightarrow> nat \<Rightarrow> string \<Rightarrow> handler \<Rightarrow> world" where
  "delete = addHandler DELETE"

definition any :: "world \<Rightarrow> nat \<Rightarrow> string \<Rightarrow> handler \<Rightarrow> world" where
  "any = addHandler ANY"

text \<open>\<^verbatim>\<open>Router.assignSelfAsMainRouter\<close> (part_001, lines 271-279; the same text in
  \<^verbatim>\<open>src/src/router/Router.ts\<close>, lines 151-159).\<close>

definition assignSelfAsMainRouter :: "world \<Rightarrow> nat \<Rightarrow> error + world" where
  "assignSelfAsMainRouter w this =
     (if mainRouter (routers w this) \<noteq> None then Inl MainRouterAlreadyAssigned
      else Inr (updRouter w this (\<lambda>r. r\<lparr>isMainRouter := True\<rparr>)))"

text \<open>\<^verbatim>\<open>Router.getMainRouter\<close> (part_001, lines 563-573).\<close>

fun getMainRouter :: "nat \<Rightarrow> world \<Rightarrow> nat \<Rightarrow> error + nat" where
  "getMainRouter stack w this =
     (case parentRouter (routers w this) of
        Some parent \<Rightarrow>
          (case stack of 0 \<Rightarrow> Inl RangeError | Suc stack' \<Rightarrow> getMainRouter stack' w parent)
      | None \<Rightarrow> if isMainRouter (routers w this) then Inr this else Inl TopLevelNotMain)"

section \<open>The rewritten router: matching\<close>

record matchInfo =
  pathMatches :: bool
  pathMatchData :: "params option"
  methodMatches :: bool

text \<open>
  \<^verbatim>\<open>Route.matchesRequest\<close> (part_000, lines 125-134) with \<^verbatim>\<open>RoutePath.matchesInputPath\<close>.
  Both methods are values of the type \<^verbatim>\<open>Methods\<close>, already upper case.
\<close>

definition matchesRequest :: "urlpattern \<Rightarrow> route \<Rightarrow> routerRequest \<Rightarrow> matchInfo" where
  "matchesRequest U r request =
     (let pathMatchResult = U (fixedPath r) (req_path request);
          methodOk = (if route_method r = ANY then True else route_method r = req_method request)
      in \<lparr> pathMatches = (pathMatchResult \<noteq> None \<and> methodOk),
           pathMatchData = pathMatchResult,
           methodMatches = methodOk \<rparr>)"

record matchingRoute =
  m_route :: route
  m_match :: "params option"

text \<open>
  \<^verbatim>\<open>Router.findMatchingRoutes\<close> (part_001, lines 287-309): the loop over \<^verbatim>\<open>this.routes\<close>
  with its accumulator \<^verbatim>\<open>foundMatching\<close>; the call into a mounted router uses one more
  stack frame.
\<close>

fun findMatchingRoutes_loop ::
  "urlpattern \<Rightarrow> nat \<Rightarrow> world \<Rightarrow> routerRequest \<Rightarrow> matchingRoute list \<Rightarrow> route list
     \<Rightarrow> error + matchingRoute list" where
  "findMatchingRoutes_loop U stack w request foundMatching [] = Inr foundMatching"
| "findMatchingRoutes_loop U stack w request foundMatching (r # rest) =
     (case route_handler r of
        HRouter child \<Rightarrow>
          (case stack of
             0 \<Rightarrow> Inl RangeError
           | Suc stack' \<Rightarrow>
               (case findMatchingRoutes_loop U stack' w request [] (routes (routers w child)) of
                  Inl e \<Rightarrow> Inl e
                | Inr sub \<Rightarrow> findMatchingRoutes_loop U stack w request (foundMatching @ sub) rest))
      | HFn _ \<Rightarrow>
          (let matchRoute = matchesRequest U r request
           in findMatchingRoutes_loop U stack w request
                (if pathMatches matchRoute
                 then foundMatching @ [\<lparr> m_route = r, m_match = pathMatchData matchRoute \<rparr>]
                 else foundMatching)
                rest))"

definition findMatchingRoutes ::
  "urlpattern \<Rightarrow> nat \<Rightarrow> world \<Rightarrow> routerRequest \<Rightarrow> nat \<Rightarrow> error + matchingRoute list" where
  "findMatchingRoutes U stack w request this =
     findMatchingRoutes_loop U stack w request [] (routes (routers w this))"

section \<open>The rewritten router: request and response contexts\<close>

text \<open>
  \<^verbatim>\<open>RouterRequest.fixRequestUrl\<close> (part_001, lines 39-44). The index of the first
  \<^verbatim>\<open>?\<close>, or the length when there is none, is the length of the part before it;
  \<^verbatim>\<open>charAt(-1)\<close> is the empty string.
\<close>

definition fixRequestUrl :: "string \<Rightarrow> string" where
  "fixRequestUrl url =
     (let endIndex = length (takeWhile (\<lambda>c. c \<noteq> CHR ''?'') url);
          endChar = (if endIndex = 0 then [] else [url ! (endIndex - 1)])
      in if endChar \<noteq> ''/'' then slice url 0 endIndex @ ''/'' @ drop endIndex url else url)"

text \<open>
  The request a host hands to \<^verbatim>\<open>serveRequest\<close>, and the \<^verbatim>\<open>RouterRequest\<close> constructor
  (part_001, lines 23-37). The runtime's URL parser is external: \<open>P u\<close> stands for
  \<^verbatim>\<open>new URL(u).pathname\<close>, \<open>None\<close> when the constructor throws its \<open>TypeError\<close>.
\<close>

record incomingRequest =
  in_url :: string
  in_method :: "methods option"

definition newRouterRequest :: "(string \<Rightarrow> string option) \<Rightarrow> incomingRequest \<Rightarrow> error + routerRequest" where
  "newRouterRequest P incoming =
     (let url = fixRequestUrl (in_url incoming)
      in case P url of
           None \<Rightarrow> Inl TypeError
         | Some pathname \<Rightarrow>
             Inr \<lparr> req_url = url,
                   req_path = pathname,
                   req_method = (case in_method incoming of None \<Rightarrow> GET | Some m \<Rightarrow> m),
                   matchedParams = None,
                   req_matchedRoute = None \<rparr>)"

text \<open>
  The \<^verbatim>\<open>RouterResponse\<close> constructor and the setters (part_002, lines 98-231). The
  setters \<^verbatim>\<open>text\<close>, \<^verbatim>\<open>status\<close> and \<^verbatim>\<open>statusCode\<close> are \<open>sendText\<close>, \<open>setStatus\<close>
  and \<open>setStatusCode\<close> here; each returns \<^verbatim>\<open>this\<close>.
\<close>

definition newRouterResponse :: routerResponse where
  "newRouterResponse =
     \<lparr> rtype = normal, status = ''OK'', statusCode = 200, headers = [], tasks = [],
       body = None, redirectToUrl = None, redirectStatusCode = None, customResponse = None,
       res_matchedRoute = None, locals = [] \<rparr>"

definition setContentType :: "string \<Rightarrow> 'a responseOptions_scheme \<Rightarrow> 'a responseOptions_scheme" where
  "setContentType contentType r = r\<lparr>headers := setKey ''content-type'' contentType (headers r)\<rparr>"

definition sendText :: "string \<Rightarrow> 'a responseOptions_scheme \<Rightarrow> 'a responseOptions_scheme" where
  "sendText t r = setContentType ''text/plain'' (r\<lparr>body := Some t\<rparr>)"

definition raw :: "string option \<Rightarrow> string \<Rightarrow> 'a responseOptions_scheme \<Rightarrow> 'a responseOptions_scheme" where
  "raw b contentType r = setContentType contentType (r\<lparr>body := b\<rparr>)"

definition setStatus :: "string \<Rightarrow> 'a responseOptions_scheme \<Rightarrow> 'a responseOptions_scheme" where
  "setStatus statusText r = r\<lparr>status := statusText\<rparr>"

definition setStatusCode :: "int \<Rightarrow> 'a responseOptions_scheme \<Rightarrow> 'a responseOptions_scheme" where
  "setStatusCode code r = r\<lparr>statusCode := code\<rparr>"

definition addTasks :: "nat list \<Rightarrow> 'a responseOptions_scheme \<Rightarrow> 'a responseOptions_scheme" where
  "addTasks ts r = r\<lparr>tasks := tasks r @ ts\<rparr>"

definition redirectTo :: "string \<Rightarrow> int option \<Rightarrow> 'a responseOptions_scheme \<Rightarrow> 'a responseOptions_scheme" where
  "redirectTo redirectUrl code r =
     r\<lparr>rtype := redirect,
       redirectToUrl := Some redirectUrl,
       redirectStatusCode := Some (case code of None \<Rightarrow> 302 | Some c \<Rightarrow> c)\<rparr>"

definition setCustomResponse :: "response \<Rightarrow> 'a responseOptions_scheme \<Rightarrow> 'a responseOptions_scheme" where
  "setCustomResponse resp r = r\<lparr>customResponse := Some resp\<rparr>"

definition setLocal :: "string \<Rightarrow> string \<Rightarrow> routerResponse \<Rightarrow> routerResponse" where
  "setLocal k v r = r\<lparr>locals := setKey k v (locals r)\<rparr>"

section \<open>The rewritten router: dispatch\<close>

text \<open>
  \<^verbatim>\<open>RouterResponse.build\<close> (part_002, lines 250-281). \<^verbatim>\<open>matchedRoute!\<close> on a request
  without a matched route is a \<open>TypeError\<close>. \<^verbatim>\<open>getMainRouter\<close> returns a router or
  throws, so the test \<^verbatim>\<open>!mainRouter\<close> never fires. What the custom response builder or
  the host's constructors throw leaves \<^verbatim>\<open>build\<close> uncaught. The store is returned too: a
  call of the custom response builder leaves the builder changed.
\<close>

definition build :: "runtime \<Rightarrow> nat \<Rightarrow> world \<Rightarrow> ctx \<Rightarrow> (error + builtResponse) \<times> ctx \<times> world" where
  "build H stack w c =
     (let (request, this) = c
      in case req_matchedRoute request of
           None \<Rightarrow> (Inl TypeError, c, w)
         | Some matched \<Rightarrow>
             (case getMainRouter stack w (route_router matched) of
                Inl e \<Rightarrow> (Inl e, c, w)
              | Inr main \<Rightarrow>
                  (case customResponseBuilder (routers w main) of
                     Some builder \<Rightarrow>
                       (let (finalResponse, this') = answer builder this;
                            w' = updRouter w main
                                   (\<lambda>r. r\<lparr>customResponseBuilder := Some (after builder this)\<rparr>)
                        in case finalResponse of
                             Inl e \<Rightarrow> (Inl e, (request, this'), w')
                           | Inr resp \<Rightarrow>
                               (Inr \<lparr> b_tasks = tasks this', b_response = resp \<rparr>, (request, this'), w'))
                   | None \<Rightarrow>
                       if rtype this = redirect then
                         (case redirectResponse H (redirectToUrl this) (redirectStatusCode this) of
                            Inl e \<Rightarrow> (Inl e, c, w)
                          | Inr resp \<Rightarrow> (Inr \<lparr> b_tasks = tasks this, b_response = Some resp \<rparr>, c, w))
                       else if rtype this = normal then
                         (case newResponse H (body this) (statusCode this) (status this) (headers this) of
                            Inl e \<Rightarrow> (Inl e, c, w)
                          | Inr resp \<Rightarrow> (Inr \<lparr> b_tasks = tasks this, b_response = Some resp \<rparr>, c, w))
                       else
                         (Inr \<lparr> b_tasks = tasks this, b_response = customResponse this \<rparr>, c, w))))"

text \<open>
  \<^verbatim>\<open>Router.finishResponse\<close> (part_001, lines 473-485): after \<^verbatim>\<open>build\<close> it calls the
  custom response builder of the main router once more.
\<close>

definition finishResponse ::
  "runtime \<Rightarrow> nat \<Rightarrow> world \<Rightarrow> nat \<Rightarrow> ctx \<Rightarrow> builtResponse promise \<times> ctx \<times> world" where
  "finishResponse H stack w this c =
     (case getMainRouter stack w this of
        Inl e \<Rightarrow> (Rejected e, c, w)
      | Inr main \<Rightarrow>
          (case build H stack w c of
             (Inl e, c', w') \<Rightarrow> (Rejected e, c', w')
           | (Inr builtResponseOptions, c', w') \<Rightarrow>
               (case customResponseBuilder (routers w' main) of
                  Some builder \<Rightarrow>
                    (let (r, response') = answer builder (snd c');
                         w'' = updRouter w' main
                                 (\<lambda>r. r\<lparr>customResponseBuilder := Some (after builder (snd c'))\<rparr>)
                     in case r of
                          Inl e \<Rightarrow> (Rejected e, (fst c', response'), w'')
                        | Inr resp \<Rightarrow>
                            (Resolved (builtResponseOptions\<lparr>b_response := resp\<rparr>), (fst c', response'), w''))
                | None \<Rightarrow> (Resolved builtResponseOptions, c', w'))))"

text \<open>
  \<^verbatim>\<open>Router.executeMiddleware\<close> (part_001, lines 496-526). The promise is made with an
  \<^verbatim>\<open>async\<close> executor and only \<^verbatim>\<open>resolve\<close> settles it: with a continuation parameter
  it resolves to the argument the handler passes (\<^verbatim>\<open>proceed = true\<close> by default), and a
  handler that throws or never calls leaves it pending. Without one, the source awaits
  the arrow function \<^verbatim>\<open>(async () => middlewareHandler(request, response))\<close>, which it
  never calls, and resolves to \<^verbatim>\<open>true\<close>. A router object has no \<^verbatim>\<open>length\<close> of 3.
\<close>

definition executeMiddleware :: "(nat \<Rightarrow> ctx fn) \<Rightarrow> route \<Rightarrow> ctx \<Rightarrow> bool promise \<times> ctx" where
  "executeMiddleware F middleware c =
     (case route_handler middleware of
        HRouter _ \<Rightarrow> (Resolved True, c)
      | HFn h \<Rightarrow>
          (let middlewareHandler = F h;
               hasNextCallback = (fn_length middlewareHandler = 3)
           in if hasNextCallback then
                (case fn_body middlewareHandler c of
                   (Called proceed, c') \<Rightarrow> (Resolved (case proceed of None \<Rightarrow> True | Some b \<Rightarrow> b), c')
                 | (NeverCalled, c') \<Rightarrow> (Pending, c')
                 | (Threw, c') \<Rightarrow> (Pending, c'))
              else (Resolved True, c)))"

text \<open>
  The middleware loop of \<^verbatim>\<open>processRequest\<close> (part_001, lines 438-452): it yields
  \<^verbatim>\<open>allMiddlewaresSuccessful\<close>, or stays pending with the step it awaits, and logs each
  step it runs.
\<close>

fun runMiddlewares ::
  "(route \<Rightarrow> ctx \<Rightarrow> bool promise \<times> ctx) \<Rightarrow> route list \<Rightarrow> ctx \<Rightarrow> route list
     \<Rightarrow> bool promise \<times> ctx \<times> route list" where
  "runMiddlewares exec [] c stepsRun = (Resolved True, c, stepsRun)"
| "runMiddlewares exec (middleware # rest) c stepsRun =
     (case exec middleware c of
        (Resolved middlewareSuccess, c') \<Rightarrow>
          if \<not> middlewareSuccess then (Resolved False, c', stepsRun @ [middleware])
          else runMiddlewares exec rest c' (stepsRun @ [middleware])
      | (Rejected e, c') \<Rightarrow> (Rejected e, c', stepsRun @ [middleware])
      | (Pending, c') \<Rightarrow> (Pending, c', stepsRun @ [middleware]))"

text \<open>
  The call of the response handler, \<^verbatim>\<open>await handler(routerRequest, routerResponse)\<close>:
  it is handed no continuation, so all that matters is whether it throws. A router
  object is not callable.
\<close>

definition callResponseHandler :: "(nat \<Rightarrow> 'c fn) \<Rightarrow> handler \<Rightarrow> 'c \<Rightarrow> (error + unit) \<times> 'c" where
  "callResponseHandler F h c =
     (case h of
        HRouter _ \<Rightarrow> (Inl TypeError, c)
      | HFn f \<Rightarrow> (case fn_body (F f) c of (Threw, c') \<Rightarrow> (Inl HandlerThrew, c') | (_, c') \<Rightarrow> (Inr (), c')))"

text \<open>
  \<^verbatim>\<open>Router.processRequest\<close> (part_001, lines 401-465). \<^verbatim>\<open>Array.prototype.sort\<close> with
  the comparator \<^verbatim>\<open>a.route.routeIndex - b.route.routeIndex\<close> is a stable ascending sort.
\<close>

definition processRequest ::
  "urlpattern \<Rightarrow> (nat \<Rightarrow> ctx fn) \<Rightarrow> runtime \<Rightarrow> nat \<Rightarrow> world \<Rightarrow> nat \<Rightarrow> ctx
     \<Rightarrow> (ctx, route, world) dispatch" where
  "processRequest U F H stack w this c =
     (let (routerRequest, routerResponse) = c
      in case findMatchingRoutes U stack w routerRequest this of
           Inl e \<Rightarrow> \<lparr> outcome = Rejected e, contexts = Some c, store = w, steps = [], terminalRan = False \<rparr>
         | Inr foundMatchingRoutes \<Rightarrow>
             (let foundMiddlewares =
                    filter (\<lambda>m. \<not> isHandlerRouter (m_route m))
                      (filter (\<lambda>m. isMiddleware (m_route m)) foundMatchingRoutes);
                  responseHandler =
                    firstTruthy (filter (\<lambda>m. \<not> isMiddleware (m_route m)) foundMatchingRoutes)
              in case responseHandler of
                   None \<Rightarrow> \<lparr> outcome = Rejected NoResponseHandler, contexts = Some c, store = w,
                              steps = [], terminalRan = False \<rparr>
                 | Some rh \<Rightarrow>
                     (let c1 = (routerRequest\<lparr>matchedParams := m_match rh,
                                               req_matchedRoute := Some (m_route rh)\<rparr>,
                                routerResponse\<lparr>res_matchedRoute := Some (m_route rh)\<rparr>);
                          orderedMiddlewareList = sort_key (\<lambda>m. routeIndex (m_route m)) foundMiddlewares;
                          (allMiddlewaresSuccessful, c2, stepsRun) =
                            runMiddlewares (executeMiddleware F) (map m_route orderedMiddlewareList) c1 []
                      in case allMiddlewaresSuccessful of
                           Pending \<Rightarrow> \<lparr> outcome = Pending, contexts = Some c2, store = w,
                                        steps = stepsRun, terminalRan = False \<rparr>
                         | Rejected e \<Rightarrow> \<lparr> outcome = Rejected e, contexts = Some c2, store = w,
                                           steps = stepsRun, terminalRan = False \<rparr>
                         | Resolved False \<Rightarrow>
                             (let (p, c3, w') = finishResponse H stack w this c2
                              in \<lparr> outcome = p, contexts = Some c3, store = w',
                                   steps = stepsRun, terminalRan = False \<rparr>)
                         | Resolved True \<Rightarrow>
                             (case callResponseHandler F (route_handler (m_route rh)) c2 of
                                (Inl e, c3) \<Rightarrow>
                                  \<lparr> outcome = Rejected e, contexts = Some c3, store = w,
                                    steps = stepsRun, terminalRan = True \<rparr>
                              | (Inr _, c3) \<Rightarrow>
                                  (let (p, c4, w') = finishResponse H stack w this c3
                                   in \<lparr> outcome = p, contexts = Some c4, store = w',
                                        steps = stepsRun, terminalRan = True \<rparr>)))))"

text \<open>\<^verbatim>\<open>Router.serveRequest\<close> (part_001, lines 535-556); it also returns the store, in
  which it may have marked the router as main.\<close>

definition serveRequest ::
  "urlpattern \<Rightarrow> (nat \<Rightarrow> ctx fn) \<Rightarrow> (string \<Rightarrow> string option) \<Rightarrow> runtime \<Rightarrow> nat \<Rightarrow> world \<Rightarrow> nat
     \<Rightarrow> incomingRequest \<Rightarrow> (ctx, route, world) dispatch \<times> world" where
  "serveRequest U F P H stack w this incoming =
     (case (if mainRouter (routers w this) = None \<and> \<not> isMainRouter (routers w this)
            then assignSelfAsMainRouter w this else Inr w) of
        Inl e \<Rightarrow> (\<lparr> outcome = Rejected e, contexts = None, store = w, steps = [], terminalRan = False \<rparr>, w)
      | Inr w1 \<Rightarrow>
          (case newRouterRequest P incoming of
             Inl e \<Rightarrow> (\<lparr> outcome = Rejected e, contexts = None, store = w1, steps = [], terminalRan = False \<rparr>, w1)
           | Inr routerRequest \<Rightarrow>
               (let d = processRequest U F H stack w1 this (routerRequest, newRouterResponse)
                in (d, store d))))"

section \<open>The rewrite in src/src/router: where it differs\<close>

text \<open>
  \<^verbatim>\<open>RouterResponse.build\<close> of \<^verbatim>\<open>src/src/router\<close> (the class that follows \<^verbatim>\<open>Route\<close> in
  \<^verbatim>\<open>src/src/router/Route.ts\<close>, lines 236-259): no main router and no builder are
  consulted.
\<close>

definition build_R :: "runtime \<Rightarrow> ctx \<Rightarrow> (error + builtResponse) \<times> ctx" where
  "build_R H c =
     (let (request, this) = c
      in if rtype this = redirect then
           (case redirectResponse H (redirectToUrl this) (redirectStatusCode this) of
              Inl e \<Rightarrow> (Inl e, c)
            | Inr resp \<Rightarrow> (Inr \<lparr> b_tasks = tasks this, b_response = Some resp \<rparr>, c))
         else if rtype this = normal then
           (case newResponse H (body this) (statusCode this) (status this) (headers this) of
              Inl e \<Rightarrow> (Inl e, c)
            | Inr resp \<Rightarrow> (Inr \<lparr> b_tasks = tasks this, b_response = Some resp \<rparr>, c))
         else
           (Inr \<lparr> b_tasks = tasks this, b_response = customResponse this \<rparr>, c))"

text \<open>\<^verbatim>\<open>Router.finishResponse\<close> (\<^verbatim>\<open>src/src/router/Router.ts\<close>, lines 306-318).\<close>

definition finishResponse_R ::
  "runtime \<Rightarrow> nat \<Rightarrow> world \<Rightarrow> nat \<Rightarrow> ctx \<Rightarrow> builtResponse promise \<times> ctx \<times> world" where
  "finishResponse_R H stack w this c =
     (case getMainRouter stack w this of
        Inl e \<Rightarrow> (Rejected e, c, w)
      | Inr main \<Rightarrow>
          (case build_R H c of
             (Inl e, c') \<Rightarrow> (Rejected e, c', w)
           | (Inr builtResponseOptions, c') \<Rightarrow>
               (case customResponseBuilder (routers w main) of
                  Some builder \<Rightarrow>
                    (let (r, response') = answer builder (snd c');
                         w' = updRouter w main
                                (\<lambda>r. r\<lparr>customResponseBuilder := Some (after builder (snd c'))\<rparr>)
                     in case r of
                          Inl e \<Rightarrow> (Rejected e, (fst c', response'), w')
                        | Inr resp \<Rightarrow>
                            (Resolved (builtResponseOptions\<lparr>b_response := resp\<rparr>), (fst c', response'), w'))
                | None \<Rightarrow> (Resolved builtResponseOptions, c', w))))"

text \<open>
  \<^verbatim>\<open>Router.executeMiddleware\<close> (\<^verbatim>\<open>src/src/router/Router.ts\<close>, lines 320-353): the
  continuation is the fourth parameter and takes \<^verbatim>\<open>abort\<close>; it resolves to \<^verbatim>\<open>!abort\<close>.
\<close>

definition executeMiddleware_R :: "(nat \<Rightarrow> ctx fn) \<Rightarrow> route \<Rightarrow> ctx \<Rightarrow> bool promise \<times> ctx" where
  "executeMiddleware_R F middleware c =
     (case route_handler middleware of
        HRouter _ \<Rightarrow> (Resolved True, c)
      | HFn h \<Rightarrow>
          (let middlewareHandler = F h;
               hasNextCallback = (fn_length middlewareHandler = 4)
           in if hasNextCallback then
                (case fn_body middlewareHandler c of
                   (Called abort, c') \<Rightarrow> (Resolved (case abort of None \<Rightarrow> True | Some b \<Rightarrow> \<not> b), c')
                 | (NeverCalled, c') \<Rightarrow> (Pending, c')
                 | (Threw, c') \<Rightarrow> (Pending, c'))
              else (Resolved True, c)))"

text \<open>
  \<^verbatim>\<open>Router.processRequest\<close> (\<^verbatim>\<open>src/src/router/Router.ts\<close>, lines 239-304). The
  comparator is \<^verbatim>\<open>b.route.routeIndex - a.route.routeIndex\<close>: a stable descending sort.
\<close>

definition processRequest_R ::
  "urlpattern \<Rightarrow> (nat \<Rightarrow> ctx fn) \<Rightarrow> runtime \<Rightarrow> nat \<Rightarrow> world \<Rightarrow> nat \<Rightarrow> ctx
     \<Rightarrow> (ctx, route, world) dispatch" where
  "processRequest_R U F H stack w this c =
     (let (routerRequest, routerResponse) = c
      in case findMatchingRoutes U stack w routerRequest this of
           Inl e \<Rightarrow> \<lparr> outcome = Rejected e, contexts = Some c, store = w, steps = [], terminalRan = False \<rparr>
         | Inr foundMatchingRoutes \<Rightarrow>
             (let foundMiddlewares =
                    filter (\<lambda>m. \<not> isHandlerRouter (m_route m))
                      (filter (\<lambda>m. isMiddleware (m_route m)) foundMatchingRoutes);
                  responseHandler =
                    firstTruthy (filter (\<lambda>m. \<not> isMiddleware (m_route m)) foundMatchingRoutes)
              in case responseHandler of
                   None \<Rightarrow> \<lparr> outcome = Rejected NoResponseHandler, contexts = Some c, store = w,
                              steps = [], terminalRan = False \<rparr>
                 | Some rh \<Rightarrow>
                     (let c1 = (routerRequest\<lparr>matchedParams := m_match rh,
                                               req_matchedRoute := Some (m_route rh)\<rparr>,
                                routerResponse\<lparr>res_matchedRoute := Some (m_route rh)\<rparr>);
                          orderedMiddlewareList = sort_key (\<lambda>m. - routeIndex (m_route m)) foundMiddlewares;
                          (allMiddlewaresSuccessful, c2, stepsRun) =
                            runMiddlewares (executeMiddleware_R F) (map m_route orderedMiddlewareList) c1 []
                      in case allMiddlewaresSuccessful of
                           Pending \<Rightarrow> \<lparr> outcome = Pending, contexts = Some c2, store = w,
                                        steps = stepsRun, terminalRan = False \<rparr>
                         | Rejected e \<Rightarrow> \<lparr> outcome = Rejected e, contexts = Some c2, store = w,
                                           steps = stepsRun, terminalRan = False \<rparr>
                         | Resolved False \<Rightarrow>
                             (let (p, c3, w') = finishResponse_R H stack w this c2
                              in \<lparr> outcome = p, contexts = Some c3, store = w',
                                   steps = stepsRun, terminalRan = False \<rparr>)
                         | Resolved True \<Rightarrow>
                             (case callResponseHandler F (route_handler (m_route rh)) c2 of
                                (Inl e, c3) \<Rightarrow>
                                  \<lparr> outcome = Rejected e, contexts = Some c3, store = w,
                                    steps = stepsRun, terminalRan = True \<rparr>
                              | (Inr _, c3) \<Rightarrow>
                                  (let (p, c4, w') = finishResponse_R H stack w this c3
                                   in \<lparr> outcome = p, contexts = Some c4, store = w',
                                        steps = stepsRun, terminalRan = True \<rparr>)))))"

text \<open>\<^verbatim>\<open>Router.serveRequest\<close> (\<^verbatim>\<open>src/src/router/Router.ts\<close>, lines 355-376).\<close>

definition serveRequest_R ::
  "urlpattern \<Rightarrow> (nat \<Rightarrow> ctx fn) \<Rightarrow> (string \<Rightarrow> string option) \<Rightarrow> runtime \<Rightarrow> nat \<Rightarrow> world \<Rightarrow> nat
     \<Rightarrow> incomingRequest \<Rightarrow> (ctx, route, world) dispatch \<times> world" where
  "serveRequest_R U F P H stack w this incoming =
     (case (if \<not> isMainRouter (routers w this) then assignSelfAsMainRouter w this else Inr w) of
        Inl e \<Rightarrow> (\<lparr> outcome = Rejected e, contexts = None, store = w, steps = [], terminalRan = False \<rparr>, w)
      | Inr w1 \<Rightarrow>
          (case newRouterRequest P incoming of
             Inl e \<Rightarrow> (\<lparr> outcome = Rejected e, contexts = None, store = w1, steps = [], terminalRan = False \<rparr>, w1)
           | Inr routerRequest \<Rightarrow>
               (let d = processRequest_R U F H stack w1 this (routerRequest, newRouterResponse)
                in (d, store d))))"

section \<open>The legacy router\<close>

text \<open>
  \<^verbatim>\<open>Route\<close> with its \<^verbatim>\<open>RouterPath\<close> (\<^verbatim>\<open>src/src/Router.ts\<close>, lines 17-62): \<open>rawInput\<close> and
  \<open>fixed\<close> are the fields of \<^verbatim>\<open>route.path\<close>, whose \<^verbatim>\<open>pattern\<close> is
  \<^verbatim>\<open>new UrlPattern(fixed)\<close>.
\<close>

record route_L =
  router_L :: nat
  method_L :: methods
  rawInput :: string
  fixed :: string
  handler_L :: handler
  isMiddleware_L :: bool

text \<open>\<^verbatim>\<open>RouterRequest\<close> (\<^verbatim>\<open>src/src/RouterRequest.ts\<close>): the fields the router reads or writes.\<close>

record routerRequest_L =
  req_router_L :: nat
  url_L :: string
  path_L :: string
  req_method_L :: methods
  matchedParams_L :: "params option"

text \<open>\<^verbatim>\<open>RouterResponse\<close> (\<^verbatim>\<open>src/src/RouterResponse.ts\<close>, lines 23-91).\<close>

record routerResponse_L = responseOptions +
  res_router_L :: nat
  locals_L :: "(string \<times> string) list"

type_synonym ctx_L = "routerRequest_L \<times> routerResponse_L"

text \<open>\<^verbatim>\<open>Router\<close> (\<^verbatim>\<open>src/src/Router.ts\<close>, lines 69-80); \<open>customResponseBuilder_L\<close> is
  \<^verbatim>\<open>routerOptions.customResponseBuilder\<close>. The store maps identifiers to routers.\<close>

record router_L =
  routes_L :: "route_L list"
  basePath_L :: "string option"
  customResponseBuilder_L :: "routerResponse_L builder option"

type_synonym world_L = "nat \<Rightarrow> router_L"

definition newRouter_L :: router_L where
  "newRouter_L = \<lparr> routes_L = [], basePath_L = None, customResponseBuilder_L = None \<rparr>"

text \<open>The \<^verbatim>\<open>Route\<close> constructor (\<^verbatim>\<open>src/src/Router.ts\<close>, lines 40-57).\<close>

definition newRoute_L :: "world_L \<Rightarrow> nat \<Rightarrow> string \<Rightarrow> methods \<Rightarrow> handler \<Rightarrow> bool \<Rightarrow> route_L" where
  "newRoute_L w this rawPath m h isMw =
     \<lparr> router_L = this,
       method_L = m,
       rawInput = rawPath,
       fixed = (if isMw then fixUsePath (basePath_L (w this)) rawPath
                else fixHandlerPath (basePath_L (w this)) rawPath),
       handler_L = h,
       isMiddleware_L = isMw \<rparr>"

text \<open>
  \<^verbatim>\<open>Router.refreshRoutes\<close> (\<^verbatim>\<open>src/src/Router.ts\<close>, lines 251-285): the loop over the old
  routes; a mounted router is refreshed first, which uses one more stack frame.
\<close>

fun refreshRoutes_loop ::
  "nat \<Rightarrow> world_L \<Rightarrow> nat \<Rightarrow> route_L list \<Rightarrow> route_L list \<Rightarrow> error + (route_L list \<times> world_L)" where
  "refreshRoutes_loop stack w this newRoutes [] = Inr (newRoutes, w)"
| "refreshRoutes_loop stack w this newRoutes (oldRoute # rest) =
     (if isMiddleware_L oldRoute then
        (case handler_L oldRoute of
           HRouter child \<Rightarrow>
             (case stack of
                0 \<Rightarrow> Inl RangeError
              | Suc stack' \<Rightarrow>
                  (case refreshRoutes_loop stack' w child [] (routes_L (w child)) of
                     Inl e \<Rightarrow> Inl e
                   | Inr (childRoutes, w') \<Rightarrow>
                       (let w1 = w'(child := (w' child)\<lparr>routes_L := childRoutes\<rparr>)
                        in refreshRoutes_loop stack w1 this
                             (newRoutes @ [newRoute_L w1 this (rawInput oldRoute) (method_L oldRoute)
                                             (handler_L oldRoute) (isMiddleware_L oldRoute)])
                             rest)))
         | HFn _ \<Rightarrow>
             refreshRoutes_loop stack w this
               (newRoutes @ [newRoute_L w this (rawInput oldRoute) (method_L oldRoute)
                               (handler_L oldRoute) (isMiddleware_L oldRoute)])
               rest)
      else
        refreshRoutes_loop stack w this
          (newRoutes @ [newRoute_L w this (rawInput oldRoute) (method_L oldRoute)
                          (handler_L oldRoute) (isMiddleware_L oldRoute)])
          rest)"

definition refreshRoutes :: "nat \<Rightarrow> world_L \<Rightarrow> nat \<Rightarrow> error + world_L" where
  "refreshRoutes stack w this =
     (case refreshRoutes_loop stack w this [] (routes_L (w this)) of
        Inl e \<Rightarrow> Inl e
      | Inr (newRoutes, w') \<Rightarrow> Inr (w'(this := (w' this)\<lparr>routes_L := newRoutes\<rparr>)))"

text \<open>
  \<^verbatim>\<open>Router.use(arg0, arg1?)\<close> (\<^verbatim>\<open>src/src/Router.ts\<close>, lines 88-129): \<open>arg0\<close> is a
  string or a handler.
\<close>

definition use_L :: "nat \<Rightarrow> world_L \<Rightarrow> nat \<Rightarrow> string + handler \<Rightarrow> handler option \<Rightarrow> error + world_L" where
  "use_L stack w this arg0 arg1 =
     (case arg0 of
        Inl path \<Rightarrow>
          (case arg1 of
             None \<Rightarrow> Inl UseNeedsSecondArgument
           | Some h \<Rightarrow>
               (let fixedUsePath = fixUsePath (basePath_L (w this)) path;
                    w1 = (case h of
                            HRouter child \<Rightarrow>
                              w(child := (w child)\<lparr>basePath_L := Some (orEmpty (basePath_L (w this)) @ fixedUsePath)\<rparr>)
                          | HFn _ \<Rightarrow> w);
                    w2 = w1(this := (w1 this)\<lparr>routes_L := routes_L (w1 this) @ [newRoute_L w1 this path ANY h True]\<rparr>)
                in refreshRoutes stack w2 this))
      | Inr h \<Rightarrow>
          (let w2 = w(this := (w this)\<lparr>routes_L := routes_L (w this) @ [newRoute_L w this ''*'' ANY h True]\<rparr>)
           in refreshRoutes stack w2 this))"

text \<open>\<^verbatim>\<open>addPathHandler\<close> and the method shorthands (\<^verbatim>\<open>src/src/Router.ts\<close>, lines 131-195).\<close>

definition addPathHandler :: "world_L \<Rightarrow> nat \<Rightarrow> methods \<Rightarrow> string \<Rightarrow> handler \<Rightarrow> bool option \<Rightarrow> world_L" where
  "addPathHandler w this m path h isMw =
     w(this := (w this)\<lparr>routes_L := routes_L (w this) @
          [newRoute_L w this path m h (case isMw of None \<Rightarrow> False | Some b \<Rightarrow> b)]\<rparr>)"

definition get_L :: "world_L \<Rightarrow> nat \<Rightarrow> string \<Rightarrow> handler \<Rightarrow> world_L" where
  "get_L w this path h = addPathHandler w this GET path h (Some False)"

definition post_L :: "world_L \<Rightarrow> nat \<Rightarrow> string \<Rightarrow> handler \<Rightarrow> world_L" where
  "post_L w this path h = addPathHandler w this POST path h None"

definition options_L :: "world_L \<Rightarrow> nat \<Rightarrow> string \<Rightarrow> handler \<Rightarrow> world_L" where
  "options_L w this path h = addPathHandler w this OPTIONS path h None"

definition head_L :: "world_L \<Rightarrow> nat \<Rightarrow> string \<Rightarrow> handler \<Rightarrow> world_L" where
  "head_L w this path h = addPathHandler w this HEAD path h None"

definition delete_L :: "world_L \<Rightarrow> nat \<Rightarrow> string \<Rightarrow> handler \<Rightarrow> world_L" where
  "delete_L w this path h = addPathHandler w this DELETE path h None"

definition any_L :: "world_L \<Rightarrow> nat \<Rightarrow> string \<Rightarrow> handler \<Rightarrow> world_L" where
  "any_L w this path h = addPathHandler w this ANY path h None"

section \<open>The legacy router: matching and dispatch\<close>

record matched_L =
  ml_route :: route_L
  ml_match :: params

text \<open>
  \<^verbatim>\<open>Router.getMatchingRoutesByPath\<close> (\<^verbatim>\<open>src/src/Router.ts\<close>, lines 197-224): the loop
  over \<^verbatim>\<open>this.routes\<close>; \<^verbatim>\<open>fillArray\<close> is one array shared by all the recursive calls.
\<close>

fun getMatchingRoutesByPath_loop ::
  "urlpattern \<Rightarrow> nat \<Rightarrow> world_L \<Rightarrow> string \<Rightarrow> matched_L list \<Rightarrow> route_L list \<Rightarrow> error + matched_L list" where
  "getMatchingRoutesByPath_loop U stack w totalPath fillArray [] = Inr fillArray"
| "getMatchingRoutesByPath_loop U stack w totalPath fillArray (r # rest) =
     (case handler_L r of
        HRouter child \<Rightarrow>
          (case stack of
             0 \<Rightarrow> Inl RangeError
           | Suc stack' \<Rightarrow>
               (case getMatchingRoutesByPath_loop U stack' w totalPath fillArray (routes_L (w child)) of
                  Inl e \<Rightarrow> Inl e
                | Inr fillArray' \<Rightarrow> getMatchingRoutesByPath_loop U stack w totalPath fillArray' rest))
      | HFn _ \<Rightarrow>
          (case U (fixed r) totalPath of
             Some checkMatch \<Rightarrow>
               getMatchingRoutesByPath_loop U stack w totalPath
                 (fillArray @ [\<lparr> ml_route = r, ml_match = checkMatch \<rparr>]) rest
           | None \<Rightarrow>
               if fixed r = ''*''
               then getMatchingRoutesByPath_loop U stack w totalPath
                      (fillArray @ [\<lparr> ml_route = r, ml_match = [] \<rparr>]) rest
               else getMatchingRoutesByPath_loop U stack w totalPath fillArray rest))"

definition getMatchingRoutesByPath ::
  "urlpattern \<Rightarrow> nat \<Rightarrow> world_L \<Rightarrow> nat \<Rightarrow> string \<Rightarrow> error + matched_L list" where
  "getMatchingRoutesByPath U stack w this totalPath =
     getMatchingRoutesByPath_loop U stack w totalPath [] (routes_L (w this))"

text \<open>\<^verbatim>\<open>Router.getMatchingRoutesByPathAndMethod\<close> (\<^verbatim>\<open>src/src/Router.ts\<close>, lines 226-236).\<close>

definition getMatchingRoutesByPathAndMethod ::
  "urlpattern \<Rightarrow> nat \<Rightarrow> world_L \<Rightarrow> nat \<Rightarrow> string \<Rightarrow> methods \<Rightarrow> error + matched_L list" where
  "getMatchingRoutesByPathAndMethod U stack w this path m =
     (case getMatchingRoutesByPath U stack w this path of
        Inl e \<Rightarrow> Inl e
      | Inr matchedByPath \<Rightarrow>
          Inr (filter (\<lambda>matched. list_ex (\<lambda>compareMethod. method_L (ml_route matched) = compareMethod) [m, ANY])
                 matchedByPath))"

text \<open>
  The routes that \<^verbatim>\<open>getMatchingRoutesByPath\<close> tests against the path, in the order in
  which it comes to them: the routes of the list whose handler is a function, and in
  place of a route whose handler is a router the routes visited below that router. The
  walk ends where the call stack does.
\<close>

fun routesVisited :: "nat \<Rightarrow> world_L \<Rightarrow> route_L list \<Rightarrow> route_L list" where
  "routesVisited stack w [] = []"
| "routesVisited stack w (r # rest) =
     (case handler_L r of
        HRouter child \<Rightarrow>
          (case stack of
             0 \<Rightarrow> []
           | Suc stack' \<Rightarrow> routesVisited stack' w (routes_L (w child)) @ routesVisited stack w rest)
      | HFn _ \<Rightarrow> r # routesVisited stack w rest)"

text \<open>The constructors of \<^verbatim>\<open>RouterRequest\<close> and \<^verbatim>\<open>RouterResponse\<close>
  (\<^verbatim>\<open>src/src/RouterRequest.ts\<close>, lines 18-35; \<^verbatim>\<open>src/src/RouterResponse.ts\<close>, lines 73-91),
  and the one setter that differs from part_002.\<close>

definition newRouterRequest_L ::
  "(string \<Rightarrow> string option) \<Rightarrow> nat \<Rightarrow> incomingRequest \<Rightarrow> error + routerRequest_L" where
  "newRouterRequest_L P this incoming =
     (let url = fixRequestUrl (in_url incoming)
      in case P url of
           None \<Rightarrow> Inl TypeError
         | Some pathname \<Rightarrow>
             Inr \<lparr> req_router_L = this,
                   url_L = url,
                   path_L = pathname,
                   req_method_L = (case in_method incoming of None \<Rightarrow> GET | Some m \<Rightarrow> m),
                   matchedParams_L = None \<rparr>)"

definition newRouterResponse_L :: "nat \<Rightarrow> routerResponse_L" where
  "newRouterResponse_L this =
     \<lparr> rtype = normal, status = ''OK'', statusCode = 200, headers = [], tasks = [],
       body = None, redirectToUrl = None, redirectStatusCode = None, customResponse = None,
       res_router_L = this, locals_L = [] \<rparr>"

definition setCustomResponse_L :: "response \<Rightarrow> routerResponse_L \<Rightarrow> routerResponse_L" where
  "setCustomResponse_L resp r = r\<lparr>rtype := custom, customResponse := Some resp\<rparr>"

text \<open>
  \<^verbatim>\<open>RouterResponse.build\<close> (\<^verbatim>\<open>src/src/RouterResponse.ts\<close>, lines 173-210). An empty
  redirect URL is falsy, like a missing one.
\<close>

definition build_L :: "runtime \<Rightarrow> world_L \<Rightarrow> ctx_L \<Rightarrow> (error + builtResponse) \<times> ctx_L \<times> world_L" where
  "build_L H w c =
     (let (request, this) = c
      in case customResponseBuilder_L (w (res_router_L this)) of
           Some builder \<Rightarrow>
             (let (finalResponse, this') = answer builder this;
                  w' = w(res_router_L this :=
                         (w (res_router_L this))\<lparr>customResponseBuilder_L := Some (after builder this)\<rparr>)
              in case finalResponse of
                   Inl e \<Rightarrow> (Inl e, (request, this'), w')
                 | Inr None \<Rightarrow> (Inl NoFinalResponse, (request, this'), w')
                 | Inr (Some resp) \<Rightarrow>
                     (Inr \<lparr> b_tasks = tasks this', b_response = Some resp \<rparr>, (request, this'), w'))
         | None \<Rightarrow>
             if rtype this = redirect then
               (if redirectToUrl this = None \<or> redirectToUrl this = Some []
                then (Inl NoRedirectUrl, c, w)
                else (case redirectResponse H (redirectToUrl this) (redirectStatusCode this) of
                        Inl e \<Rightarrow> (Inl e, c, w)
                      | Inr resp \<Rightarrow> (Inr \<lparr> b_tasks = tasks this, b_response = Some resp \<rparr>, c, w)))
             else if rtype this = normal then
               (case newResponse H (body this) (statusCode this) (status this) (headers this) of
                  Inl e \<Rightarrow> (Inl e, c, w)
                | Inr resp \<Rightarrow> (Inr \<lparr> b_tasks = tasks this, b_response = Some resp \<rparr>, c, w))
             else
               (case customResponse this of
                  None \<Rightarrow> (Inl NoCustomResponse, c, w)
                | Some r \<Rightarrow> (Inr \<lparr> b_tasks = tasks this, b_response = Some r \<rparr>, c, w)))"

text \<open>\<^verbatim>\<open>Router.finishResponse\<close> (\<^verbatim>\<open>src/src/Router.ts\<close>, lines 357-368).\<close>

definition finishResponse_L ::
  "runtime \<Rightarrow> world_L \<Rightarrow> nat \<Rightarrow> ctx_L \<Rightarrow> builtResponse promise \<times> ctx_L \<times> world_L" where
  "finishResponse_L H w this c =
     (case build_L H w c of
        (Inl e, c', w') \<Rightarrow> (Rejected e, c', w')
      | (Inr builtResponse, c', w') \<Rightarrow>
          (case customResponseBuilder_L (w' this) of
             Some builder \<Rightarrow>
               (let (r, response') = answer builder (snd c');
                    w'' = w'(this := (w' this)\<lparr>customResponseBuilder_L := Some (after builder (snd c'))\<rparr>)
                in case r of
                     Inl e \<Rightarrow> (Rejected e, (fst c', response'), w'')
                   | Inr resp \<Rightarrow>
                       (Resolved (builtResponse\<lparr>b_response := resp\<rparr>), (fst c', response'), w''))
           | None \<Rightarrow> (Resolved builtResponse, c', w')))"

text \<open>
  \<^verbatim>\<open>Router.executeMiddleware\<close> (\<^verbatim>\<open>src/src/Router.ts\<close>, lines 370-394). As in part_001
  the executor is \<^verbatim>\<open>async\<close>, \<^verbatim>\<open>reject\<close> is never called, and the handler of the branch
  without a continuation is wrapped in an arrow function that is never called.
\<close>

definition executeMiddleware_L :: "(nat \<Rightarrow> ctx_L fn) \<Rightarrow> route_L \<Rightarrow> ctx_L \<Rightarrow> bool promise \<times> ctx_L" where
  "executeMiddleware_L F middleware c =
     (case handler_L middleware of
        HRouter _ \<Rightarrow> (Resolved True, c)
      | HFn h \<Rightarrow>
          (let handler = F h;
               hasNextCallback = (fn_length handler = 3)
           in if hasNextCallback then
                (case fn_body handler c of
                   (Called proceed, c') \<Rightarrow> (Resolved (case proceed of None \<Rightarrow> True | Some b \<Rightarrow> b), c')
                 | (NeverCalled, c') \<Rightarrow> (Pending, c')
                 | (Threw, c') \<Rightarrow> (Pending, c'))
              else (Resolved True, c)))"

text \<open>
  The middleware loop of the legacy \<^verbatim>\<open>processRequest\<close> (\<^verbatim>\<open>src/src/Router.ts\<close>, lines
  315-335): \<^verbatim>\<open>.catch((e) => e)\<close> turns a rejection into an \<^verbatim>\<open>Error\<close> value, which ends
  the loop like \<^verbatim>\<open>false\<close>.
\<close>

fun runMiddlewares_L ::
  "(route_L \<Rightarrow> ctx_L \<Rightarrow> bool promise \<times> ctx_L) \<Rightarrow> route_L list \<Rightarrow> ctx_L \<Rightarrow> route_L list
     \<Rightarrow> bool promise \<times> ctx_L \<times> route_L list" where
  "runMiddlewares_L exec [] c stepsRun = (Resolved True, c, stepsRun)"
| "runMiddlewares_L exec (middleware # rest) c stepsRun =
     (case exec middleware c of
        (Resolved middlewareSuccess, c') \<Rightarrow>
          if \<not> middlewareSuccess then (Resolved False, c', stepsRun @ [middleware])
          else runMiddlewares_L exec rest c' (stepsRun @ [middleware])
      | (Rejected e, c') \<Rightarrow> (Resolved False, c', stepsRun @ [middleware])
      | (Pending, c') \<Rightarrow> (Pending, c', stepsRun @ [middleware]))"

text \<open>\<^verbatim>\<open>Router.processRequest\<close> (\<^verbatim>\<open>src/src/Router.ts\<close>, lines 287-355).\<close>

definition processRequest_L ::
  "urlpattern \<Rightarrow> (nat \<Rightarrow> ctx_L fn) \<Rightarrow> runtime \<Rightarrow> nat \<Rightarrow> world_L \<Rightarrow> nat \<Rightarrow> ctx_L
     \<Rightarrow> (ctx_L, route_L, world_L) dispatch" where
  "processRequest_L U F H stack w this c =
     (let (routerRequest, routerResponse) = c
      in case getMatchingRoutesByPath U stack w this (path_L routerRequest) of
           Inl e \<Rightarrow> \<lparr> outcome = Rejected e, contexts = Some c, store = w, steps = [], terminalRan = False \<rparr>
         | Inr foundMatchingRoutes \<Rightarrow>
             (let middlewareMatches =
                    filter (\<lambda>m. \<not> isRouteHandlerRouter (handler_L (ml_route m)))
                      (filter (\<lambda>m. isMiddleware_L (ml_route m)) foundMatchingRoutes);
                  responseMatch =
                    firstTruthy (filter (\<lambda>m. \<not> isMiddleware_L (ml_route m)) foundMatchingRoutes)
              in case responseMatch of
                   None \<Rightarrow>
                     (let routerResponse' =
                            sendText ''Error 404 - not found!''
                              (setStatus ''Not found'' (setStatusCode 404 routerResponse));
                          (p, c', w') = finishResponse_L H w this (routerRequest, routerResponse')
                      in \<lparr> outcome = p, contexts = Some c', store = w', steps = [], terminalRan = False \<rparr>)
                 | Some rm \<Rightarrow>
                     if isRouteHandlerRouter (handler_L (ml_route rm)) then
                       \<lparr> outcome = Rejected ResponseHandlerIsRouter, contexts = Some c, store = w,
                         steps = [], terminalRan = False \<rparr>
                     else
                       (let (allMiddlewaresSuccessful, c2, stepsRun) =
                              runMiddlewares_L (executeMiddleware_L F) (map ml_route middlewareMatches) c []
                        in case allMiddlewaresSuccessful of
                             Pending \<Rightarrow> \<lparr> outcome = Pending, contexts = Some c2, store = w,
                                          steps = stepsRun, terminalRan = False \<rparr>
                           | Rejected e \<Rightarrow> \<lparr> outcome = Rejected e, contexts = Some c2, store = w,
                                             steps = stepsRun, terminalRan = False \<rparr>
                           | Resolved False \<Rightarrow>
                               (let (p, c3, w') = finishResponse_L H w this c2
                                in \<lparr> outcome = p, contexts = Some c3, store = w',
                                     steps = stepsRun, terminalRan = False \<rparr>)
                           | Resolved True \<Rightarrow>
                               (let c3 = (fst c2\<lparr>matchedParams_L := Some (ml_match rm)\<rparr>, snd c2)
                                in case callResponseHandler F (handler_L (ml_route rm)) c3 of
                                     (Inl e, c4) \<Rightarrow>
                                       \<lparr> outcome = Rejected e, contexts = Some c4, store = w,
                                         steps = stepsRun, terminalRan = True \<rparr>
                                   | (Inr _, c4) \<Rightarrow>
                                       (let (p, c5, w') = finishResponse_L H w this c4
                                        in \<lparr> outcome = p, contexts = Some c5, store = w',
                                             steps = stepsRun, terminalRan = True \<rparr>)))))"

text \<open>\<^verbatim>\<open>Router.serveRequest\<close> (\<^verbatim>\<open>src/src/Router.ts\<close>, lines 396-413).\<close>

definition serveRequest_L ::
  "urlpattern \<Rightarrow> (nat \<Rightarrow> ctx_L fn) \<Rightarrow> (string \<Rightarrow> string option) \<Rightarrow> runtime \<Rightarrow> nat \<Rightarrow> world_L \<Rightarrow> nat
     \<Rightarrow> incomingRequest \<Rightarrow> (ctx_L, route_L, world_L) dispatch" where
  "serveRequest_L U F P H stack w this incoming =
     (case newRouterRequest_L P this incoming of
        Inl e \<Rightarrow> \<lparr> outcome = Rejected e, contexts = None, store = w, steps = [], terminalRan = False \<rparr>
      | Inr routerRequest \<Rightarrow>
          processRequest_L U F H stack w this (routerRequest, newRouterResponse_L this))"

section \<open>Mounting in src/src/router\<close>

text \<open>
  \<^verbatim>\<open>Router.init\<close> and \<^verbatim>\<open>Router.use\<close> of \<^verbatim>\<open>src/src/router/Router.ts\<close> (lines 63-67 and
  123-142): \<^verbatim>\<open>init\<close> does not rebuild the routes, and \<^verbatim>\<open>use\<close> hands the path on as
  given.
\<close>

definition init_R :: "world \<Rightarrow> nat \<Rightarrow> string \<Rightarrow> nat option \<Rightarrow> world" where
  "init_R w this newBasePath parent =
     (let w1 = updRouter w this (\<lambda>r. r\<lparr>basePath := ''/''\<rparr>);
          w2 = updRouter w1 this (\<lambda>r. r\<lparr>basePath :=
                  fixPath (basePath (routers w1 this)) (if newBasePath = [] then ''/'' else newBasePath)\<rparr>)
      in updRouter w2 this (\<lambda>r. r\<lparr>parentRouter := parent\<rparr>))"

definition use_R :: "world \<Rightarrow> nat \<Rightarrow> use_args \<Rightarrow> world" where
  "use_R w this args =
     (let useHandler = (case args of PathAnd _ h \<Rightarrow> h | HandlerOnly h \<Rightarrow> h | HandlerAnd _ h \<Rightarrow> h);
          usePath = (case args of PathAnd p _ \<Rightarrow> p | HandlerOnly _ \<Rightarrow> ''/'' | HandlerAnd _ _ \<Rightarrow> ''/'');
          w1 = (case useHandler of HRouter child \<Rightarrow> init_R w child usePath (Some this) | HFn _ \<Rightarrow> w)
      in snd (createRouteAndAdd w1 this
                \<lparr> o_path = usePath, o_handler = useHandler, o_method = ANY,
                  o_isMiddleware = True, o_routeIndex = None \<rparr>))"

section \<open>What a match selects\<close>

text \<open>
  Two registrations of one handler make two route objects, which differ in their owning
  router and their index. What a match selects is the method, the fixed path, the
  handler, the middleware flag and the parameters.
\<close>

definition selection :: "matchingRoute \<Rightarrow> methods \<times> string \<times> handler \<times> bool \<times> params option" where
  "selection m = (route_method (m_route m), fixedPath (m_route m), route_handler (m_route m),
                  isMiddleware (m_route m), m_match m)"

definition selection_L :: "matched_L \<Rightarrow> methods \<times> string \<times> handler \<times> bool \<times> params" where
  "selection_L m = (method_L (ml_route m), fixed (ml_route m), handler_L (ml_route m),
                    isMiddleware_L (ml_route m), ml_match m)"

section \<open>Concrete routers, handlers and requests\<close>

text \<open>
  Two router objects, and stores in which every router is as its constructor left it
  (the route counter at \<open>n\<close>).
\<close>

definition root :: nat where
  "root = 0"

definition api :: nat where
  "api = 1"

definition fresh :: "int \<Rightarrow> world" where
  "fresh n = \<lparr> routers = (\<lambda>_. newRouter None None None), lastRouteIndex = n \<rparr>"

definition fresh_L :: world_L where
  "fresh_L = (\<lambda>_. newRouter_L)"

text \<open>
  Stand-ins for the external packages, enough to run the examples. They follow the
  packages on the inputs they accept and answer \<open>None\<close> on the others.

  The matcher knows the patterns of \<^verbatim>\<open>url-pattern\<close> that are static text, or static text
  followed by one wildcard \<^verbatim>\<open>*\<close>. Static text (no \<^verbatim>\<open>:\<close>, \<^verbatim>\<open>*\<close>, \<^verbatim>\<open>(\<close>, \<^verbatim>\<open>)\<close> or
  backslash) matches itself and binds nothing; the wildcard matches what is left of the
  path, which may be empty, and binds it to \<^verbatim>\<open>_\<close>.
\<close>

definition special :: "char \<Rightarrow> bool" where
  "special c = (c = CHR '':'' \<or> c = CHR ''*'' \<or> c = CHR ''('' \<or> c = CHR '')'' \<or> c = CHR 0x5C)"

definition patternMatcher :: urlpattern where
  "patternMatcher p x =
     (if list_ex special p then
        (if p \<noteq> [] \<and> last p = CHR ''*'' \<and> list_all (\<lambda>c. \<not> special c) (butlast p)
         then (if startsWith x (butlast p) then Some [(''_'', drop (length p - 1) x)] else None)
         else None)
      else if p = x then Some [] else None)"

text \<open>
  The path name of a URL on the host \<^verbatim>\<open>https://x\<close> whose path needs no normalising: what
  comes before the query and the fragment, \<^verbatim>\<open>/\<close> when that is empty.
\<close>

definition hostPathname :: "string \<Rightarrow> string option" where
  "hostPathname u =
     (if take 9 u = ''https://x'' then
        (let path = takeWhile (\<lambda>c. c \<noteq> CHR ''?'' \<and> c \<noteq> CHR ''#'') (drop 9 u)
         in if path = [] then Some ''/''
            else if startsWith path ''/'' then Some path
            else None)
      else None)"

text \<open>
  A runtime that refuses what the Fetch standard has the two constructors refuse on
  account of the status and of the URL, and accepts the rest: \<^verbatim>\<open>new Response\<close> wants a
  status from 200 to 599, and no body with the statuses 204, 205 and 304;
  \<^verbatim>\<open>Response.redirect\<close> wants an absolute URL (a worker has no base URL to resolve
  another against) and one of the redirect statuses, 302 when none is given.
\<close>

definition workerRuntime :: runtime where
  "workerRuntime =
     \<lparr> newResponse = (\<lambda>b code statusText hs.
         if code < 200 \<or> 599 < code then Inl RangeError
         else if b \<noteq> None \<and> (code = 204 \<or> code = 205 \<or> code = 304) then Inl TypeError
         else Inr (Response b code statusText hs)),
       redirectResponse = (\<lambda>url code.
         case url of
           None \<Rightarrow> Inl TypeError
         | Some u \<Rightarrow>
             if startsWith u ''https://'' \<or> startsWith u ''http://'' then
               (let c = (case code of None \<Rightarrow> 302 | Some c \<Rightarrow> c)
                in if c = 301 \<or> c = 302 \<or> c = 303 \<or> c = 307 \<or> c = 308
                   then Inr (Redirect u c) else Inl RangeError)
             else Inl TypeError) \<rparr>"

text \<open>
  Custom response builders: one that answers with a response that counts its calls and
  leaves the response object alone, as \<^verbatim>\<open>r => new Response(String(++n))\<close> does, and one
  that answers the same response every time.
\<close>

primcorec counting :: "nat \<Rightarrow> 'r builder" where
  "counting n = Builder (\<lambda>r. (Inr (Some (Custom n)), r)) (\<lambda>r. counting (Suc n))"

primcorec fixedAnswer :: "response \<Rightarrow> 'r builder" where
  "fixedAnswer x = Builder (\<lambda>r. (Inr (Some x), r)) (\<lambda>r. fixedAnswer x)"

text \<open>
  Handlers: one that calls its continuation without an argument, one that sends a text,
  one that sets a flag in \<^verbatim>\<open>locals\<close>, one that answers whether the flag is set, and one
  that throws.
\<close>

definition continues :: "nat \<Rightarrow> ctx fn" where
  "continues n = \<lparr> fn_length = n, fn_body = (\<lambda>c. (Called None, c)) \<rparr>"

definition sendsText :: "string \<Rightarrow> ctx fn" where
  "sendsText t = \<lparr> fn_length = 2, fn_body = (\<lambda>c. (NeverCalled, (fst c, sendText t (snd c)))) \<rparr>"

definition touches :: "ctx fn" where
  "touches = \<lparr> fn_length = 2,
               fn_body = (\<lambda>c. (NeverCalled, (fst c, setLocal ''hasTouched'' ''yes'' (snd c)))) \<rparr>"

definition readsFlag :: "ctx fn" where
  "readsFlag = \<lparr> fn_length = 2,
                 fn_body = (\<lambda>c. (NeverCalled,
                    (fst c, sendText (if (''hasTouched'', ''yes'') \<in> set (locals (snd c))
                                      then ''yes'' else ''no'') (snd c)))) \<rparr>"

definition throws :: "nat \<Rightarrow> 'c fn" where
  "throws n = \<lparr> fn_length = n, fn_body = (\<lambda>c. (Threw, c)) \<rparr>"

text \<open>Handler tables; 11 and 12 are the middleware, 13 is the response handler.\<close>

definition F_R :: "nat \<Rightarrow> ctx fn" where
  "F_R = (\<lambda>_. continues 4)(13 := sendsText ''/x'')"

definition F_P :: "nat \<Rightarrow> ctx fn" where
  "F_P = (\<lambda>_. continues 3)(13 := sendsText ''/x'')"

definition F_touch :: "nat \<Rightarrow> ctx fn" where
  "F_touch = (\<lambda>_. touches)(13 := readsFlag)"

definition F_throw :: "nat \<Rightarrow> ctx fn" where
  "F_throw = (\<lambda>_. continues 3)(11 := throws 3, 13 := sendsText ''/x'')"




text \<open>
  A root router with two middleware on \<^verbatim>\<open>/*\<close> and a \<^verbatim>\<open>GET\<close> handler on \<^verbatim>\<open>/x\<close>,
  registered in this order through the given \<^verbatim>\<open>use\<close>; its routes; and the store once
  \<^verbatim>\<open>serveRequest\<close> has marked the root as main.
\<close>

definition twoMiddlewares :: "(world \<Rightarrow> nat \<Rightarrow> use_args \<Rightarrow> world) \<Rightarrow> world" where
  "twoMiddlewares useFn =
     get (useFn (useFn (fresh 0) root (PathAnd ''/*'' (HFn 11))) root (PathAnd ''/*'' (HFn 12)))
       root ''/x'' (HFn 13)"

definition mw :: "int \<Rightarrow> nat \<Rightarrow> route" where
  "mw i h = \<lparr> route_router = root, route_method = ANY, inputPath = ''/*'', fixedPath = ''/*'',
              route_handler = HFn h, isMiddleware = True, routeIndex = i \<rparr>"

definition getX :: route where
  "getX = \<lparr> route_router = root, route_method = GET, inputPath = ''/x'', fixedPath = ''/x/'',
            route_handler = HFn 13, isMiddleware = False, routeIndex = 2 \<rparr>"

definition mainWorld :: world where
  "mainWorld =
     \<lparr> routers = (\<lambda>_. newRouter None None None)
          (root := \<lparr> basePath = ''/'', routes = [mw 0 11, mw 1 12, getX], parentRouter = None,
                     mainRouter = None, isMainRouter = True, customResponseBuilder = None \<rparr>),
       lastRouteIndex = 3 \<rparr>"

text \<open>Requests for \<^verbatim>\<open>https://x/x\<close> and \<^verbatim>\<open>https://x/missing\<close>, as received and as parsed.\<close>

definition inX :: incomingRequest where
  "inX = \<lparr> in_url = ''https://x/x'', in_method = None \<rparr>"

definition reqX :: routerRequest where
  "reqX = \<lparr> req_url = ''https://x/x/'', req_path = ''/x/'', req_method = GET,
            matchedParams = None, req_matchedRoute = None \<rparr>"

definition ctxX :: ctx where
  "ctxX = (reqX\<lparr>matchedParams := Some [], req_matchedRoute := Some getX\<rparr>,
           newRouterResponse\<lparr>res_matchedRoute := Some getX\<rparr>)"

definition inMissing :: incomingRequest where
  "inMissing = \<lparr> in_url = ''https://x/missing'', in_method = None \<rparr>"

definition reqMissing :: routerRequest where
  "reqMissing = \<lparr> req_url = ''https://x/missing/'', req_path = ''/missing/'', req_method = GET,
                  matchedParams = None, req_matchedRoute = None \<rparr>"

definition reqX_L :: routerRequest_L where
  "reqX_L = \<lparr> req_router_L = root, url_L = ''https://x/x/'', path_L = ''/x/'', req_method_L = GET,
              matchedParams_L = None \<rparr>"

definition reqMissing_L :: routerRequest_L where
  "reqMissing_L = \<lparr> req_router_L = root, url_L = ''https://x/missing/'', path_L = ''/missing/'',
                    req_method_L = GET, matchedParams_L = None \<rparr>"

text \<open>The same for the legacy router, with one middleware; and a handler on \<^verbatim>\<open>*\<close>.\<close>

definition mw_L :: route_L where
  "mw_L = \<lparr> router_L = root, method_L = ANY, rawInput = ''/*'', fixed = ''/*'', handler_L = HFn 11,
            isMiddleware_L = True \<rparr>"

definition getX_L :: route_L where
  "getX_L = \<lparr> router_L = root, method_L = GET, rawInput = ''/x'', fixed = ''/x/'', handler_L = HFn 13,
              isMiddleware_L = False \<rparr>"

definition oneMiddleware_L :: world_L where
  "oneMiddleware_L =
     (case use_L 0 fresh_L root (Inl ''/*'') (Some (HFn 11)) of
        Inl e \<Rightarrow> fresh_L
      | Inr w \<Rightarrow> get_L w root ''/x'' (HFn 13))"

definition starRoute :: route_L where
  "starRoute = \<lparr> router_L = root, method_L = GET, rawInput = ''*'', fixed = ''*'', handler_L = HFn 13,
                 isMiddleware_L = False \<rparr>"

text \<open>
  A router mounted at \<^verbatim>\<open>/api\<close> that then registers \<^verbatim>\<open>GET /time\<close>, and the routes this
  makes.
\<close>

definition mounted :: "int \<Rightarrow> nat \<Rightarrow> world" where
  "mounted n h = get (use (fresh n) root (PathAnd ''/api'' (HRouter api))) api ''/time'' (HFn h)"

definition mountRoute :: "int \<Rightarrow> route" where
  "mountRoute n = \<lparr> route_router = root, route_method = ANY, inputPath = ''/api/'', fixedPath = ''/api/'',
                    route_handler = HRouter api, isMiddleware = True, routeIndex = n \<rparr>"

definition timeRoute :: "int \<Rightarrow> nat \<Rightarrow> route" where
  "timeRoute n h = \<lparr> route_router = api, route_method = GET, inputPath = ''/time'',
                     fixedPath = ''/api/time/'', route_handler = HFn h, isMiddleware = False,
                     routeIndex = n \<rparr>"

definition mountRoute_L :: route_L where
  "mountRoute_L = \<lparr> router_L = root, method_L = ANY, rawInput = ''/api'', fixed = ''/api'',
                    handler_L = HRouter api, isMiddleware_L = True \<rparr>"

text \<open>
  Stores in which the main router has a custom response builder: the one that counts,
  and the one that always answers the same.
\<close>

definition countingWorld :: world where
  "countingWorld = updRouter mainWorld root (\<lambda>r. r\<lparr>customResponseBuilder := Some (counting 0)\<rparr>)"

definition countingWorld_L :: world_L where
  "countingWorld_L =
     (\<lambda>_. \<lparr> routes_L = [], basePath_L = None, customResponseBuilder_L = Some (counting 0) \<rparr>)"

definition constantWorld :: world where
  "constantWorld =
     updRouter mainWorld root (\<lambda>r. r\<lparr>customResponseBuilder := Some (fixedAnswer (Custom 0))\<rparr>)"

definition constantWorld_L :: world_L where
  "constantWorld_L =
     (\<lambda>_. \<lparr> routes_L = [], basePath_L = None, customResponseBuilder_L = Some (fixedAnswer (Custom 0)) \<rparr>)"

section \<open>C7: fixing a path twice\<close>

lemma endsWith_append_same: "endsWith (s @ t) t"
  by (simp add: endsWith_def)

lemma endsWith_appendI: "endsWith s u \<Longrightarrow> endsWith (t @ s) u"
  by (auto simp add: endsWith_def)

lemma endsWith_append3: "endsWith (s @ t @ u) u"
  by (simp add: endsWith_appendI endsWith_append_same)

text \<open>Whatever the base path, a fixed path ends in a slash or in one of the three characters.\<close>

lemma fixPath_ends:
  "endsWith (fixPath b p) ''/'' \<or>
   list_ex (\<lambda>char. endsWith (fixPath b p) char) NO_APPEND_SLASH_IF_CHARACTERS"
  unfolding fixPath_def Let_def
  by (simp add: endsWith_append_same endsWith_append3)

lemma fixPath_root_shape: "\<exists>t. fixPath ''/'' p = CHR ''/'' # t"
  by (simp add: fixPath_def Let_def)

lemma fixPath_fixed_point:
  assumes "endsWith (CHR ''/'' # t) ''/'' \<or>
           list_ex (\<lambda>char. endsWith (CHR ''/'' # t) char) NO_APPEND_SLASH_IF_CHARACTERS"
  shows "fixPath ''/'' (CHR ''/'' # t) = CHR ''/'' # t"
  using assms by (auto simp add: fixPath_def Let_def startsWith_def)

lemma fixPath_root_idem: "fixPath ''/'' (fixPath ''/'' p) = fixPath ''/'' p"
proof -
  obtain t where t: "fixPath ''/'' p = CHR ''/'' # t"
    using fixPath_root_shape by blast
  show ?thesis
    using fixPath_ends[of "''/''" p] unfolding t by (rule fixPath_fixed_point)
qed

lemma fixHandlerPath_ends:
  "endsWith (fixHandlerPath None p) ''/'' \<or>
   list_ex (\<lambda>char. endsWith (fixHandlerPath None p) char) NO_APPEND_SLASH_IF_CHARACTERS"
  unfolding fixHandlerPath_def orEmpty_def
  by (simp add: endsWith_append_same)

lemma fixHandlerPath_fixed_point:
  assumes "endsWith q ''/'' \<or> list_ex (\<lambda>char. endsWith q char) NO_APPEND_SLASH_IF_CHARACTERS"
  shows "fixHandlerPath None q = q"
  using assms by (auto simp add: fixHandlerPath_def orEmpty_def)

lemma fixHandlerPath_idem: "fixHandlerPath None (fixHandlerPath None p) = fixHandlerPath None p"
  using fixHandlerPath_ends[of p] by (rule fixHandlerPath_fixed_point)

lemma fixHandlerPath_keeps_terminator:
  "list_all (\<lambda>char. endsWith (fixHandlerPath b (p @ char)) char) NO_APPEND_SLASH_IF_CHARACTERS"
  unfolding fixHandlerPath_def NO_APPEND_SLASH_IF_CHARACTERS_def
  by (simp add: endsWith_append_same endsWith_append3 endsWith_appendI)

text \<open>
  C7 does not hold of every input path. On a router mounted under a base path,
  \<^verbatim>\<open>fixPath\<close> prepends \<^verbatim>\<open>this.basePath\<close> to whatever it is given, so fixing \<^verbatim>\<open>/time\<close>
  twice under the base path \<^verbatim>\<open>/api/\<close> gives \<^verbatim>\<open>/api/api/time/\<close>, not \<^verbatim>\<open>/api/time/\<close>. The
  legacy \<^verbatim>\<open>fixUsePath\<close> removes one trailing slash each time it is applied, so it is not
  idempotent even without a base path.
\<close>

theorem fixPath_not_idempotent_under_base:
  "fixPath ''/api/'' ''/time'' = ''/api/time/'' \<and>
   fixPath ''/api/'' (fixPath ''/api/'' ''/time'') = ''/api/api/time/'' \<and>
   fixPath ''/api/'' (fixPath ''/api/'' ''/time'') \<noteq> fixPath ''/api/'' ''/time'' \<and>
   fixUsePath None ''/a//'' = ''/a/'' \<and>
   fixUsePath None (fixUsePath None ''/a//'') = ''/a''"
  by (simp add: fixPath_def fixUsePath_def orEmpty_def slice_def Let_def startsWith_def endsWith_def
        NO_APPEND_SLASH_IF_CHARACTERS_def)

lemma strip_keeps_last:
  "char \<noteq> ''/'' \<Longrightarrow> length char = 1 \<Longrightarrow>
   endsWith (if startsWith (p @ char) ''/'' then drop 1 (p @ char) else p @ char) char"
  by (cases p) (auto simp add: startsWith_def endsWith_def)

lemma fixPath_no_slash_appended:
  assumes "char \<noteq> ''/''" "length char = 1" "char \<in> set NO_APPEND_SLASH_IF_CHARACTERS"
  shows "fixPath b (p @ char) =
         b @ (if startsWith (p @ char) ''/'' then drop 1 (p @ char) else p @ char)"
proof -
  let ?s = "if startsWith (p @ char) ''/'' then drop 1 (p @ char) else p @ char"
  have "endsWith ?s char"
    using assms(1,2) by (rule strip_keeps_last)
  then have "endsWith (b @ ?s) char"
    by (rule endsWith_appendI)
  then have "list_ex (\<lambda>c. endsWith (b @ ?s) c) NO_APPEND_SLASH_IF_CHARACTERS"
    using assms(3) by (auto simp add: list_ex_iff)
  then show ?thesis
    unfolding fixPath_def Let_def by simp
qed

lemma fixPath_keeps_terminator:
  "list_all (\<lambda>char. endsWith (fixPath b (p @ char)) char) NO_APPEND_SLASH_IF_CHARACTERS"
proof -
  have "endsWith (fixPath b (p @ char)) char"
    if "char \<in> set NO_APPEND_SLASH_IF_CHARACTERS" for char
  proof -
    have c: "char \<noteq> ''/''" "length char = 1"
      using that by (auto simp add: NO_APPEND_SLASH_IF_CHARACTERS_def)
    show ?thesis
      unfolding fixPath_no_slash_appended[OF c that]
      by (rule endsWith_appendI, rule strip_keeps_last[OF c])
  qed
  then show ?thesis
    by (simp add: list_all_iff)
qed

text \<open>
  C7 holds at the root: on a router whose base path is \<^verbatim>\<open>/\<close> (a root router), \<^verbatim>\<open>fixPath\<close> is
  idempotent for every input path, and so is the legacy \<^verbatim>\<open>fixHandlerPath\<close> on a router
  without a base path; under every base path, a path that ends in one of the characters
  \<^verbatim>\<open>*\<close>, \<^verbatim>\<open>)\<close>, \<^verbatim>\<open>?\<close> still ends in it after fixing, so no slash was appended.
\<close>

theorem fixPath_idempotent_at_root:
  "fixPath ''/'' (fixPath ''/'' p) = fixPath ''/'' p \<and>
   fixHandlerPath None (fixHandlerPath None p) = fixHandlerPath None p \<and>
   list_all (\<lambda>char. endsWith (fixPath b (p @ char)) char) NO_APPEND_SLASH_IF_CHARACTERS \<and>
   list_all (\<lambda>char. endsWith (fixHandlerPath b' (p @ char)) char) NO_APPEND_SLASH_IF_CHARACTERS"
  using fixPath_root_idem fixHandlerPath_idem fixPath_keeps_terminator fixHandlerPath_keeps_terminator
  by blast

section \<open>Evaluating the concrete routers\<close>

text \<open>
  The registrations, requests and matches of the concrete routers, computed once from
  the definitions.
\<close>

lemmas path_simps = fixPath_def fixHandlerPath_def fixUsePath_def orEmpty_def slice_def startsWith_def endsWith_def
  NO_APPEND_SLASH_IF_CHARACTERS_def Let_def

lemma fixPath_star: "fixPath ''/'' ''/*'' = ''/*''"
  by (simp add: path_simps)

lemma fixPath_x: "fixPath ''/'' ''/x'' = ''/x/''"
  by (simp add: path_simps)

lemma fixUsePath_star: "fixUsePath None ''/*'' = ''/*''"
  by (simp add: path_simps)

lemma fixHandlerPath_x: "fixHandlerPath None ''/x'' = ''/x/''"
  by (simp add: path_simps)

lemma fixHandlerPath_lone_star: "fixHandlerPath None ''*'' = ''*''"
  by (simp add: path_simps)

lemma fixPath_api: "fixPath ''/'' ''/api'' = ''/api/''"
  by (simp add: path_simps)

lemma fixPath_api_again: "fixPath ''/'' ''/api/'' = ''/api/''"
  by (simp add: path_simps)

lemma fixPath_time_below_api: "fixPath ''/api/'' ''/time'' = ''/api/time/''"
  by (simp add: path_simps)

lemma fixPath_api_time: "fixPath ''/'' ''/api/time'' = ''/api/time/''"
  by (simp add: path_simps)

lemma fixUsePath_api: "fixUsePath None ''/api'' = ''/api''"
  by (simp add: path_simps)

lemma fixHandlerPath_time_below_api: "fixHandlerPath (Some ''/api'') ''/time'' = ''/api/time/''"
  by (simp add: path_simps)

lemma fixHandlerPath_api_time: "fixHandlerPath None ''/api/time'' = ''/api/time/''"
  by (simp add: path_simps)

lemma api_neq_root: "api \<noteq> root" "root \<noteq> api"
  by (simp_all add: root_def api_def)

lemma addHandler_simp:
  "addHandler m w this path h =
     \<lparr> routers = (routers w)(this := (routers w this)\<lparr>routes := routes (routers w this) @
         [\<lparr> route_router = this, route_method = m, inputPath = path,
            fixedPath = fixPath (basePath (routers w this)) path, route_handler = h,
            isMiddleware = False, routeIndex = lastRouteIndex w \<rparr>]\<rparr>),
       lastRouteIndex = lastRouteIndex w + 1 \<rparr>"
  by (cases h) (simp_all add: addHandler_def createRouteAndAdd_def createRoute_def updRouter_def isRouteMiddleware_def)

lemma use_R_fn:
  "use_R w this (PathAnd p (HFn h)) =
     \<lparr> routers = (routers w)(this := (routers w this)\<lparr>routes := routes (routers w this) @
         [\<lparr> route_router = this, route_method = ANY, inputPath = p,
            fixedPath = fixPath (basePath (routers w this)) p, route_handler = HFn h,
            isMiddleware = True, routeIndex = lastRouteIndex w \<rparr>]\<rparr>),
       lastRouteIndex = lastRouteIndex w + 1 \<rparr>"
  by (simp add: use_R_def createRouteAndAdd_def createRoute_def updRouter_def isRouteMiddleware_def)

lemma use_fn:
  "use w this (PathAnd p (HFn h)) =
     \<lparr> routers = (routers w)(this := (routers w this)\<lparr>routes := routes (routers w this) @
         [\<lparr> route_router = this, route_method = ANY, inputPath = fixPath (basePath (routers w this)) p,
            fixedPath = fixPath (basePath (routers w this)) (fixPath (basePath (routers w this)) p), route_handler = HFn h,
            isMiddleware = True, routeIndex = lastRouteIndex w \<rparr>]\<rparr>),
       lastRouteIndex = lastRouteIndex w + 1 \<rparr>"
  by (simp add: use_def Let_def createRouteAndAdd_def createRoute_def updRouter_def isRouteMiddleware_def)

lemma twoMiddlewares_use_R: "twoMiddlewares use_R =
   \<lparr> routers = (\<lambda>_. newRouter None None None)(root := \<lparr> basePath = ''/'', routes = [mw 0 11, mw 1 12, getX],
        parentRouter = None, mainRouter = None, isMainRouter = False, customResponseBuilder = None \<rparr>),
     lastRouteIndex = 3 \<rparr>"
  by (simp add: twoMiddlewares_def use_R_fn addHandler_simp get_def fresh_def newRouter_def fixPath_star fixPath_x mw_def getX_def)

lemma twoMiddlewares_use: "twoMiddlewares use =
   \<lparr> routers = (\<lambda>_. newRouter None None None)(root := \<lparr> basePath = ''/'', routes = [mw 0 11, mw 1 12, getX],
        parentRouter = None, mainRouter = None, isMainRouter = False, customResponseBuilder = None \<rparr>),
     lastRouteIndex = 3 \<rparr>"
  by (simp add: twoMiddlewares_def use_fn addHandler_simp get_def fresh_def newRouter_def fixPath_star fixPath_x mw_def getX_def)

lemma assign_two: "assignSelfAsMainRouter (twoMiddlewares use_R) root = Inr mainWorld"
  "assignSelfAsMainRouter (twoMiddlewares use) root = Inr mainWorld"
  by (simp_all add: twoMiddlewares_use_R twoMiddlewares_use assignSelfAsMainRouter_def updRouter_def mainWorld_def newRouter_def)

lemma two_flags: "\<not> isMainRouter (routers (twoMiddlewares use_R) root)" "mainRouter (routers (twoMiddlewares use_R) root) = None"
  "\<not> isMainRouter (routers (twoMiddlewares use) root)" "mainRouter (routers (twoMiddlewares use) root) = None"
  by (simp_all add: twoMiddlewares_use_R twoMiddlewares_use)

lemma req_x: "newRouterRequest hostPathname \<lparr> in_url = ''https://x/x'', in_method = None \<rparr> = Inr reqX"
  by (simp add: newRouterRequest_def fixRequestUrl_def hostPathname_def startsWith_def slice_def reqX_def Let_def)

lemma found_x: "findMatchingRoutes patternMatcher stack mainWorld reqX root =
    Inr [\<lparr> m_route = mw 0 11, m_match = Some [(''_'', ''x/'')] \<rparr>, \<lparr> m_route = mw 1 12, m_match = Some [(''_'', ''x/'')] \<rparr>,
         \<lparr> m_route = getX, m_match = Some [] \<rparr>]"
  by (simp add: findMatchingRoutes_def mainWorld_def mw_def getX_def matchesRequest_def patternMatcher_def special_def startsWith_def reqX_def)

lemma main_of_root: "getMainRouter stack mainWorld root = Inr root"
  by (simp add: mainWorld_def)

lemma route_fields: "isMiddleware (mw i h)" "\<not> isHandlerRouter (mw i h)" "\<not> isMiddleware getX" "routeIndex (mw i h) = i"
  "route_handler (mw i h) = HFn h" "route_handler getX = HFn 13" "route_router getX = root"
  by (simp_all add: mw_def getX_def isHandlerRouter_def isRouteHandlerRouter_def)

lemma executeMiddleware_R_continues: "executeMiddleware_R F_R (mw i 11) c = (Resolved True, c)" "executeMiddleware_R F_R (mw i 12) c = (Resolved True, c)"
  by (simp_all add: executeMiddleware_R_def route_fields F_R_def continues_def)

lemma executeMiddleware_continues: "executeMiddleware F_P (mw i 11) c = (Resolved True, c)" "executeMiddleware F_P (mw i 12) c = (Resolved True, c)"
  by (simp_all add: executeMiddleware_def route_fields F_P_def continues_def)

lemma processRequest_R_steps:
  "steps (processRequest_R patternMatcher F_R H stack mainWorld root (reqX, newRouterResponse)) = [mw 1 12, mw 0 11]"
  by (simp add: processRequest_R_def found_x route_fields firstTruthy_def executeMiddleware_R_continues Let_def
        split: prod.splits promise.splits sum.splits bool.splits)

lemma processRequest_steps:
  "steps (processRequest patternMatcher F_P H stack mainWorld root (reqX, newRouterResponse)) = [mw 0 11, mw 1 12]"
  by (simp add: processRequest_def found_x route_fields firstTruthy_def executeMiddleware_continues Let_def
        split: prod.splits promise.splits sum.splits bool.splits)

declare getMainRouter.simps [simp del]

lemma build_store:
  assumes "\<forall>i. customResponseBuilder (routers w i) = None"
  shows "snd (build H stack w c) = (c, w)"
proof -
  obtain q r where c: "c = (q, r)" by (cases c)
  show ?thesis
    using assms by (simp add: build_def c split: option.splits sum.splits)
qed

lemma finishResponse_store:
  assumes "\<forall>i. customResponseBuilder (routers w i) = None"
  shows "snd (finishResponse H stack w this c) = (c, w)"
proof -
  obtain r where b: "build H stack w c = (r, c, w)"
    using build_store[OF assms, of H stack c] by (cases "build H stack w c") simp
  show ?thesis
    using assms by (simp add: finishResponse_def b split: sum.splits)
qed

lemma processRequest_store:
  assumes "\<forall>i. customResponseBuilder (routers w i) = None"
  shows "store (processRequest U F H stack w this c) = w"
proof -
  have f: "snd (snd (finishResponse H stack w this c')) = w" for c'
    using finishResponse_store[OF assms, of H stack this c'] by simp
  obtain q r where c: "c = (q, r)" by (cases c)
  show ?thesis
  proof (cases "findMatchingRoutes U stack w q this")
    case (Inl e)
    then show ?thesis by (simp add: processRequest_def c)
  next
    case (Inr found)
    show ?thesis
    proof (cases "firstTruthy (filter (\<lambda>m. \<not> isMiddleware (m_route m)) found)")
      case None
      then show ?thesis by (simp add: processRequest_def c Inr)
    next
      case (Some rh)
      obtain p c2 ss where run: "runMiddlewares (executeMiddleware F)
             (map m_route (sort_key (\<lambda>m. routeIndex (m_route m))
                (filter (\<lambda>m. \<not> isHandlerRouter (m_route m))
                   (filter (\<lambda>m. isMiddleware (m_route m)) found))))
             (q\<lparr>matchedParams := m_match rh, req_matchedRoute := Some (m_route rh)\<rparr>,
              r\<lparr>res_matchedRoute := Some (m_route rh)\<rparr>) [] = (p, c2, ss)"
        using prod_cases3 by blast
      obtain t c3 where call: "callResponseHandler F (route_handler (m_route rh)) c2 = (t, c3)"
        by (cases "callResponseHandler F (route_handler (m_route rh)) c2")
      obtain p2 c4 where f2: "finishResponse H stack w this c2 = (p2, c4, w)"
        using f[of c2] by (cases "finishResponse H stack w this c2") auto
      obtain p3 c5 where f3: "finishResponse H stack w this c3 = (p3, c5, w)"
        using f[of c3] by (cases "finishResponse H stack w this c3") auto
      show ?thesis
        by (simp add: processRequest_def c Inr Some Let_def run call f2 f3
              del: filter_filter split: promise.splits bool.splits sum.splits)
    qed
  qed
qed

lemma mainWorld_builders: "\<forall>i. customResponseBuilder (routers mainWorld i) = None"
  by (simp add: mainWorld_def newRouter_def)

lemma serve_two:
  "serveRequest patternMatcher F hostPathname H stack (twoMiddlewares use) root inX =
     (processRequest patternMatcher F H stack mainWorld root (reqX, newRouterResponse), mainWorld)"
  by (simp add: serveRequest_def two_flags assign_two req_x[folded inX_def] Let_def
        processRequest_store[OF mainWorld_builders])

lemma process_two:
  "processRequest patternMatcher F H stack mainWorld root (reqX, newRouterResponse) =
     (case runMiddlewares (executeMiddleware F) [mw 0 11, mw 1 12] ctxX [] of
        (Pending, c2, ss) \<Rightarrow>
          \<lparr> outcome = Pending, contexts = Some c2, store = mainWorld, steps = ss, terminalRan = False \<rparr>
      | (Rejected e, c2, ss) \<Rightarrow>
          \<lparr> outcome = Rejected e, contexts = Some c2, store = mainWorld, steps = ss, terminalRan = False \<rparr>
      | (Resolved False, c2, ss) \<Rightarrow>
          (let (p, c3, w') = finishResponse H stack mainWorld root c2
           in \<lparr> outcome = p, contexts = Some c3, store = w', steps = ss, terminalRan = False \<rparr>)
      | (Resolved True, c2, ss) \<Rightarrow>
          (case callResponseHandler F (HFn 13) c2 of
             (Inl e, c3) \<Rightarrow>
               \<lparr> outcome = Rejected e, contexts = Some c3, store = mainWorld, steps = ss, terminalRan = True \<rparr>
           | (Inr _, c3) \<Rightarrow>
               (let (p, c4, w') = finishResponse H stack mainWorld root c3
                in \<lparr> outcome = p, contexts = Some c4, store = w', steps = ss, terminalRan = True \<rparr>)))"
  by (simp add: processRequest_def found_x route_fields firstTruthy_def ctxX_def Let_def
        split: prod.splits promise.splits sum.splits bool.splits)

lemma finish_normal:
  assumes "req_matchedRoute (fst c) = Some getX" and "rtype (snd c) = normal"
  shows "finishResponse H stack mainWorld root c =
           (case newResponse H (body (snd c)) (statusCode (snd c)) (status (snd c)) (headers (snd c)) of
              Inl e \<Rightarrow> (Rejected e, c, mainWorld)
            | Inr resp \<Rightarrow>
                (Resolved \<lparr> b_tasks = tasks (snd c), b_response = Some resp \<rparr>, c, mainWorld))"
proof -
  have b: "customResponseBuilder (routers mainWorld root) = None" by (simp add: mainWorld_def)
  obtain q r where c: "c = (q, r)" by (cases c)
  show ?thesis using assms
    by (simp add: finishResponse_def main_of_root build_def c route_fields b split: sum.splits)
qed


lemma found_missing: "findMatchingRoutes patternMatcher stack mainWorld reqMissing root =
    Inr [\<lparr> m_route = mw 0 11, m_match = Some [(''_'', ''missing/'')] \<rparr>, \<lparr> m_route = mw 1 12, m_match = Some [(''_'', ''missing/'')] \<rparr>]"
  by (simp add: findMatchingRoutes_def mainWorld_def mw_def getX_def matchesRequest_def patternMatcher_def special_def startsWith_def reqMissing_def)



lemma use_L_star:
  "use_L 0 fresh_L root (Inl ''/*'') (Some (HFn 11)) =
     Inr (fresh_L(root := \<lparr> routes_L = [mw_L], basePath_L = None, customResponseBuilder_L = None \<rparr>))"
  by (simp add: use_L_def Let_def fresh_L_def newRouter_L_def newRoute_L_def refreshRoutes_def fixUsePath_star mw_L_def)

lemma one_L:
  "oneMiddleware_L = fresh_L(root := \<lparr> routes_L = [mw_L, getX_L], basePath_L = None, customResponseBuilder_L = None \<rparr>)"
  by (simp add: oneMiddleware_L_def use_L_star get_L_def addPathHandler_def newRoute_L_def fixHandlerPath_x getX_L_def)

lemma req_x_L: "newRouterRequest_L hostPathname root inX = Inr reqX_L"
  by (simp add: newRouterRequest_L_def fixRequestUrl_def hostPathname_def startsWith_def slice_def reqX_L_def Let_def inX_def)

lemma req_missing_L: "newRouterRequest_L hostPathname root inMissing = Inr reqMissing_L"
  by (simp add: newRouterRequest_L_def fixRequestUrl_def hostPathname_def startsWith_def slice_def reqMissing_L_def Let_def inMissing_def)

lemma found_x_L:
  "getMatchingRoutesByPath patternMatcher stack oneMiddleware_L root ''/x/'' =
     Inr [\<lparr> ml_route = mw_L, ml_match = [(''_'', ''x/'')] \<rparr>, \<lparr> ml_route = getX_L, ml_match = [] \<rparr>]"
  by (simp add: getMatchingRoutesByPath_def one_L mw_L_def getX_L_def patternMatcher_def special_def startsWith_def)

lemma found_missing_L:
  "getMatchingRoutesByPath patternMatcher stack oneMiddleware_L root ''/missing/'' =
     Inr [\<lparr> ml_route = mw_L, ml_match = [(''_'', ''missing/'')] \<rparr>]"
  by (simp add: getMatchingRoutesByPath_def one_L mw_L_def getX_L_def patternMatcher_def special_def startsWith_def)

lemma route_fields_L: "isMiddleware_L mw_L" "\<not> isMiddleware_L getX_L" "handler_L mw_L = HFn 11" "handler_L getX_L = HFn 13"
  "path_L reqX_L = ''/x/''"
  by (simp_all add: mw_L_def getX_L_def reqX_L_def)

lemma star_world: "get_L fresh_L root ''*'' (HFn 13) =
    fresh_L(root := \<lparr> routes_L = [starRoute], basePath_L = None, customResponseBuilder_L = None \<rparr>)"
  by (simp add: get_L_def addPathHandler_def newRoute_L_def fresh_L_def newRouter_L_def fixHandlerPath_lone_star starRoute_def)

lemma init_api: "init (fresh n) api ''/api/'' (Some root) =
   \<lparr> routers = (\<lambda>_. newRouter None None None)(api := \<lparr> basePath = ''/api/'', routes = [], parentRouter = Some root,
        mainRouter = None, isMainRouter = False, customResponseBuilder = None \<rparr>), lastRouteIndex = n \<rparr>"
  by (simp add: init_def updRouter_def updateSelfRoutes_def fresh_def newRouter_def fixPath_api_again)

lemma use_api: "use (fresh n) root (PathAnd ''/api'' (HRouter api)) =
   \<lparr> routers = (\<lambda>_. newRouter None None None)
        (api := \<lparr> basePath = ''/api/'', routes = [], parentRouter = Some root,
                 mainRouter = None, isMainRouter = False, customResponseBuilder = None \<rparr>,
         root := \<lparr> basePath = ''/'', routes = [mountRoute n], parentRouter = None,
                 mainRouter = None, isMainRouter = False, customResponseBuilder = None \<rparr>),
     lastRouteIndex = n + 1 \<rparr>"
proof -
  have b: "basePath (routers (fresh n) root) = ''/''"
    by (simp add: fresh_def newRouter_def)
  show ?thesis
    by (simp add: use_def Let_def b fixPath_api init_api fixPath_api_again createRouteAndAdd_def createRoute_def updRouter_def
        newRouter_def isRouteMiddleware_def mountRoute_def api_neq_root)
qed

lemma mounted_root: "routers (mounted n h) root = \<lparr> basePath = ''/'', routes = [mountRoute n], parentRouter = None,
                 mainRouter = None, isMainRouter = False, customResponseBuilder = None \<rparr>"
  unfolding mounted_def use_api
  by (simp add: addHandler_simp get_def api_neq_root)

lemma mounted_api: "routers (mounted n h) api = \<lparr> basePath = ''/api/'', routes = [timeRoute (n + 1) h], parentRouter = Some root,
                 mainRouter = None, isMainRouter = False, customResponseBuilder = None \<rparr>"
  unfolding mounted_def use_api
  by (simp add: addHandler_simp get_def api_neq_root fixPath_time_below_api timeRoute_def)


lemma finish_normal_worker:
  assumes "req_matchedRoute (fst c) = Some getX" and "rtype (snd c) = normal"
      and "200 \<le> statusCode (snd c)" and "statusCode (snd c) \<le> 599"
      and "statusCode (snd c) \<noteq> 204" and "statusCode (snd c) \<noteq> 205" and "statusCode (snd c) \<noteq> 304"
  shows "finishResponse workerRuntime stack mainWorld root c =
           (Resolved \<lparr> b_tasks = tasks (snd c),
                       b_response = Some (Response (body (snd c)) (statusCode (snd c)) (status (snd c))
                                            (headers (snd c))) \<rparr>, c, mainWorld)"
  unfolding finish_normal[OF assms(1,2)] using assms(3-7) by (simp add: workerRuntime_def)

section \<open>C1: the order in which middleware runs\<close>

text \<open>
  In the rewrite of part_001 the middleware that ran, in the order in which they ran,
  have ascending route indices, whatever the routers, the handlers and the request.
\<close>

lemma runMiddlewares_log:
  "runMiddlewares exec ms c acc = (p, c', log) \<Longrightarrow> \<exists>k. log = acc @ take k ms"
proof (induction ms arbitrary: c acc)
  case Nil
  then show ?case by simp
next
  case (Cons m ms)
  obtain r c1 where e: "exec m c = (r, c1)" by (cases "exec m c")
  show ?case
  proof (cases r)
    case (Resolved b)
    show ?thesis
    proof (cases b)
      case True
      then have "runMiddlewares exec ms c1 (acc @ [m]) = (p, c', log)"
        using Cons.prems e Resolved by simp
      then obtain k where "log = (acc @ [m]) @ take k ms" using Cons.IH by blast
      then have "log = acc @ take (Suc k) (m # ms)" by simp
      then show ?thesis by blast
    next
      case False
      then have "log = acc @ take 1 (m # ms)" using Cons.prems e Resolved by simp
      then show ?thesis by blast
    qed
  next
    case (Rejected x)
    then have "log = acc @ take 1 (m # ms)" using Cons.prems e by simp
    then show ?thesis by blast
  next
    case Pending
    then have "log = acc @ take 1 (m # ms)" using Cons.prems e by simp
    then show ?thesis by blast
  qed
qed

lemma steps_prefix:
  "\<exists>k (ms :: matchingRoute list). steps (processRequest U F H stack w this c) = take k (map m_route (sort_key (\<lambda>m. routeIndex (m_route m)) ms))"
proof -
  obtain rq rs where c: "c = (rq, rs)" by (cases c)
  show ?thesis
  proof (cases "findMatchingRoutes U stack w rq this")
    case (Inl e)
    then have "steps (processRequest U F H stack w this c) = take 0 (map m_route (sort_key (\<lambda>m. routeIndex (m_route m)) []))"
      by (simp add: processRequest_def c)
    then show ?thesis by - (rule exI, rule exI, assumption)
  next
    case (Inr found)
    let ?mw = "filter (\<lambda>m. \<not> isHandlerRouter (m_route m)) (filter (\<lambda>m. isMiddleware (m_route m)) found)"
    let ?ord = "map m_route (sort_key (\<lambda>m. routeIndex (m_route m)) ?mw)"
    show ?thesis
    proof (cases "firstTruthy (filter (\<lambda>m. \<not> isMiddleware (m_route m)) found)")
      case None
      then have "steps (processRequest U F H stack w this c) = take 0 ?ord"
        by (simp add: processRequest_def c Inr)
      then show ?thesis by - (rule exI, rule exI, assumption)
    next
      case (Some rh)
      let ?c1 = "(rq\<lparr>matchedParams := m_match rh, req_matchedRoute := Some (m_route rh)\<rparr>,
                  rs\<lparr>res_matchedRoute := Some (m_route rh)\<rparr>)"
      obtain p c2 ran where run: "runMiddlewares (executeMiddleware F) ?ord ?c1 [] = (p, c2, ran)"
        by (cases "runMiddlewares (executeMiddleware F) ?ord ?c1 []") auto
      then obtain k where k: "ran = take k ?ord" using runMiddlewares_log by fastforce
      have "steps (processRequest U F H stack w this c) = ran"
        using run by (simp add: processRequest_def c Inr Some Let_def split: promise.splits bool.splits prod.splits sum.splits)
      then show ?thesis unfolding k by - (rule exI, rule exI, assumption)
    qed
  qed
qed

lemma steps_ascending: "sorted (map routeIndex (steps (processRequest U F H stack w this c)))"
proof -
  obtain k and ms :: "matchingRoute list" where s: "steps (processRequest U F H stack w this c) = take k (map m_route (sort_key (\<lambda>m. routeIndex (m_route m)) ms))"
    using steps_prefix by blast
  have "map routeIndex (take k (map m_route (sort_key (\<lambda>m. routeIndex (m_route m)) ms)))
        = take k (map (\<lambda>m. routeIndex (m_route m)) (sort_key (\<lambda>m. routeIndex (m_route m)) ms))"
    by (simp add: take_map comp_def)
  moreover have "sorted (map (\<lambda>m. routeIndex (m_route m)) (sort_key (\<lambda>m. routeIndex (m_route m)) ms))"
    by (rule sorted_sort_key)
  ultimately show ?thesis using s by (simp add: sorted_wrt_take)
qed

text \<open>
  C1, middleware runs in ascending order of route index, whatever the registration
  order: \<^verbatim>\<open>src/src/router/Router.ts\<close> runs it in descending order. Two middleware
  registered on \<^verbatim>\<open>/*\<close> with indices 0 and 1, and a request that matches both: that router
  runs index 1 and then index 0, while the router of part_001, given the same
  registrations and the same request, runs index 0 and then index 1.
\<close>

theorem src_router_runs_middleware_descending:
  "map routeIndex (steps (fst (serveRequest_R patternMatcher F_R hostPathname workerRuntime 0 (twoMiddlewares use_R) root
        \<lparr> in_url = ''https://x/x'', in_method = None \<rparr>))) = [1, 0] \<and>
   map routeIndex (steps (fst (serveRequest patternMatcher F_P hostPathname workerRuntime 0 (twoMiddlewares use) root
        \<lparr> in_url = ''https://x/x'', in_method = None \<rparr>))) = [0, 1]"
  by (simp add: serveRequest_R_def serveRequest_def two_flags assign_two req_x processRequest_R_steps
        processRequest_steps route_fields Let_def)

section \<open>C2: a request without a response handler\<close>

lemma setKey_empty: "setKey k v [] = [(k, v)]"
  by (simp add: setKey_def)

lemma not_found_response:
  assumes "customResponseBuilder_L (wl this) = None"
  shows "build_L H wl (rq, sendText ''Error 404 - not found!'' (setStatus ''Not found'' (setStatusCode 404 (newRouterResponse_L this)))) =
     (case newResponse H (Some ''Error 404 - not found!'') 404 ''Not found'' [(''content-type'', ''text/plain'')] of
        Inl e \<Rightarrow> (Inl e,
                  (rq, sendText ''Error 404 - not found!'' (setStatus ''Not found'' (setStatusCode 404 (newRouterResponse_L this)))), wl)
      | Inr resp \<Rightarrow> (Inr \<lparr> b_tasks = [], b_response = Some resp \<rparr>,
                  (rq, sendText ''Error 404 - not found!'' (setStatus ''Not found'' (setStatusCode 404 (newRouterResponse_L this)))), wl))"
  using assms
  by (simp add: build_L_def sendText_def setStatus_def setStatusCode_def setContentType_def newRouterResponse_L_def
        setKey_empty split: sum.splits)

text \<open>
  C2, what happens when the matched routes hold no response handler. The legacy router,
  with no custom response builder, answers with the response that the host makes of the
  status code 404, the status \<^verbatim>\<open>Not found\<close>, the body \<^verbatim>\<open>Error 404 - not found!\<close> and the
  content type \<^verbatim>\<open>text/plain\<close>. Both rewrites reject the dispatch with the error "no
  response handler" and build no response.
\<close>

theorem no_response_handler:
  assumes "newRouterRequest_L P this incoming = Inr rq"
      and "getMatchingRoutesByPath U stack wl this (path_L rq) = Inr found"
      and "filter (\<lambda>m. \<not> isMiddleware_L (ml_route m)) found = []"
      and "customResponseBuilder_L (wl this) = None"
      and "findMatchingRoutes U' stack' w q this' = Inr found'"
      and "filter (\<lambda>m. \<not> isMiddleware (m_route m)) found' = []"
  shows "outcome (serveRequest_L U F P H stack wl this incoming) =
           (case newResponse H (Some ''Error 404 - not found!'') 404 ''Not found''
                   [(''content-type'', ''text/plain'')] of
              Inl e \<Rightarrow> Rejected e
            | Inr resp \<Rightarrow> Resolved \<lparr> b_tasks = [], b_response = Some resp \<rparr>) \<and>
         outcome (processRequest U' F' H' stack' w this' (q, r)) = Rejected NoResponseHandler \<and>
         outcome (processRequest_R U' F' H' stack' w this' (q, r)) = Rejected NoResponseHandler"
proof -
  have a: "outcome (serveRequest_L U F P H stack wl this incoming) =
           (case newResponse H (Some ''Error 404 - not found!'') 404 ''Not found''
                   [(''content-type'', ''text/plain'')] of
              Inl e \<Rightarrow> Rejected e
            | Inr resp \<Rightarrow> Resolved \<lparr> b_tasks = [], b_response = Some resp \<rparr>)"
    using assms(1-4)
    by (simp add: serveRequest_L_def processRequest_L_def firstTruthy_def finishResponse_L_def
          not_found_response split: sum.splits)
  have b: "outcome (processRequest U' F' H' stack' w this' (q, r)) = Rejected NoResponseHandler"
    using assms(5,6) by (simp add: processRequest_def firstTruthy_def)
  have c: "outcome (processRequest_R U' F' H' stack' w this' (q, r)) = Rejected NoResponseHandler"
    using assms(5,6) by (simp add: processRequest_R_def firstTruthy_def)
  show ?thesis using a b c by simp
qed

text \<open>
  C2 at a concrete input: a request for \<^verbatim>\<open>/missing\<close> to routers that only hold middleware
  for it, on a runtime that accepts the response.
\<close>

theorem no_response_handler_witness:
  "outcome (serveRequest_L patternMatcher (\<lambda>_. throws 3) hostPathname workerRuntime 0 oneMiddleware_L root inMissing) =
           Resolved \<lparr> b_tasks = [],
                      b_response = Some (Response (Some ''Error 404 - not found!'') 404 ''Not found''
                                           [(''content-type'', ''text/plain'')]) \<rparr> \<and>
   outcome (processRequest patternMatcher F_P workerRuntime 0 mainWorld root (reqMissing, newRouterResponse)) = Rejected NoResponseHandler \<and>
   outcome (processRequest_R patternMatcher F_P workerRuntime 0 mainWorld root (reqMissing, newRouterResponse)) = Rejected NoResponseHandler"
proof -
  have p: "path_L reqMissing_L = ''/missing/''" by (simp add: reqMissing_L_def)
  have b: "customResponseBuilder_L (oneMiddleware_L root) = None" by (simp add: one_L)
  have h: "newResponse workerRuntime (Some ''Error 404 - not found!'') 404 ''Not found''
             [(''content-type'', ''text/plain'')] =
           Inr (Response (Some ''Error 404 - not found!'') 404 ''Not found'' [(''content-type'', ''text/plain'')])"
    by (simp add: workerRuntime_def)
  show ?thesis
    using no_response_handler[where P = hostPathname and this = root and incoming = inMissing
        and rq = reqMissing_L and U = patternMatcher and stack = 0 and wl = oneMiddleware_L
        and found = "[\<lparr> ml_route = mw_L, ml_match = [(''_'', ''missing/'')] \<rparr>]"
        and U' = patternMatcher and stack' = 0 and w = mainWorld and q = reqMissing and this' = root
        and found' = "[\<lparr> m_route = mw 0 11, m_match = Some [(''_'', ''missing/'')] \<rparr>,
                       \<lparr> m_route = mw 1 12, m_match = Some [(''_'', ''missing/'')] \<rparr>]"
        and F = "\<lambda>_. throws 3" and F' = F_P and r = newRouterResponse
        and H = workerRuntime and H' = workerRuntime]
    by (simp add: req_missing_L p found_missing_L found_missing b route_fields route_fields_L h)
qed

text \<open>
  C2 does not hold of the rewrites: for the request for \<^verbatim>\<open>/missing\<close>, which matches the
  two middleware and no response handler, both reject and produce no 404 response.
\<close>

theorem rewrite_rejects_without_response_handler:
  "outcome (processRequest patternMatcher F_P workerRuntime 0 mainWorld root (reqMissing, newRouterResponse))
     = Rejected NoResponseHandler \<and>
   outcome (processRequest_R patternMatcher F_R workerRuntime 0 mainWorld root (reqMissing, newRouterResponse))
     = Rejected NoResponseHandler"
  by (simp add: processRequest_def processRequest_R_def found_missing route_fields firstTruthy_def)

section \<open>C3: middleware without a continuation parameter\<close>

text \<open>
  C3, a middleware that declares no continuation parameter is run and then the chain
  continues: the chain continues, but the middleware is not run. The first middleware
  would set the flag \<^verbatim>\<open>hasTouched\<close>; the response handler reports that the flag is not
  set, and \<^verbatim>\<open>locals\<close> is empty at the end. A middleware of this kind that would throw
  resolves to \<open>True\<close> all the same, in the rewrite and in the legacy router.
\<close>

theorem auto_continue_handler_is_never_called:
  "(let d = fst (serveRequest patternMatcher F_touch hostPathname workerRuntime 0 (twoMiddlewares use) root inX)
    in outcome d = Resolved \<lparr> b_tasks = [],
                               b_response = Some (Response (Some ''no'') 200 ''OK'' [(''content-type'', ''text/plain'')]) \<rparr> \<and>
       steps d = [mw 0 11, mw 1 12] \<and>
       map_option (locals \<circ> snd) (contexts d) = Some []) \<and>
   locals (snd (snd (fn_body touches ctxX))) = [(''hasTouched'', ''yes'')] \<and>
   executeMiddleware (\<lambda>_. throws 2) (mw 0 11) ctxX = (Resolved True, ctxX) \<and>
   executeMiddleware_L (\<lambda>_. throws 2)
      \<lparr> router_L = root, method_L = ANY, rawInput = ''/*'', fixed = ''/*'', handler_L = HFn 11, isMiddleware_L = True \<rparr> cl
     = (Resolved True, cl)"
proof -
  have e: "executeMiddleware F_touch (mw i h) c = (Resolved True, c)" for i h c
    by (simp add: executeMiddleware_def route_fields F_touch_def touches_def readsFlag_def)
  have r: "runMiddlewares (executeMiddleware F_touch) [mw 0 11, mw 1 12] ctxX [] = (Resolved True, ctxX, [mw 0 11, mw 1 12])"
    by (simp add: e)
  have t: "callResponseHandler F_touch (HFn 13) ctxX = (Inr (), (fst ctxX, sendText ''no'' (snd ctxX)))"
    by (simp add: callResponseHandler_def F_touch_def readsFlag_def ctxX_def newRouterResponse_def)
  have f: "finishResponse workerRuntime 0 mainWorld root (fst ctxX, sendText ''no'' (snd ctxX)) =
        (Resolved \<lparr> b_tasks = [], b_response = Some (Response (Some ''no'') 200 ''OK'' [(''content-type'', ''text/plain'')]) \<rparr>,
         (fst ctxX, sendText ''no'' (snd ctxX)), mainWorld)"
    by (subst finish_normal_worker)
       (simp_all add: ctxX_def sendText_def setContentType_def newRouterResponse_def setKey_def)
  have l: "locals (sendText ''no'' (snd ctxX)) = []"
    by (simp add: ctxX_def sendText_def setContentType_def newRouterResponse_def)
  have d: "fst (serveRequest patternMatcher F_touch hostPathname workerRuntime 0 (twoMiddlewares use) root inX) =
      \<lparr> outcome = Resolved \<lparr> b_tasks = [],
             b_response = Some (Response (Some ''no'') 200 ''OK'' [(''content-type'', ''text/plain'')]) \<rparr>,
        contexts = Some (fst ctxX, sendText ''no'' (snd ctxX)), store = mainWorld,
        steps = [mw 0 11, mw 1 12], terminalRan = True \<rparr>"
    unfolding serve_two process_two r by (simp add: t f)
  have x: "locals (snd (snd (fn_body touches ctxX))) = [(''hasTouched'', ''yes'')]"
    by (simp add: touches_def setLocal_def setKey_def ctxX_def newRouterResponse_def)
  have y: "executeMiddleware (\<lambda>_. throws 2) (mw 0 11) ctxX = (Resolved True, ctxX)"
    by (simp add: executeMiddleware_def throws_def route_fields)
  have z: "executeMiddleware_L (\<lambda>_. throws 2)
      \<lparr> router_L = root, method_L = ANY, rawInput = ''/*'', fixed = ''/*'', handler_L = HFn 11, isMiddleware_L = True \<rparr> cl
     = (Resolved True, cl)"
    by (simp add: executeMiddleware_L_def throws_def)
  show ?thesis
    unfolding d Let_def using x y z by (simp add: l)
qed

section \<open>C4: the outcomes of serving a request\<close>






section \<open>C5: mounting a router under a prefix\<close>

lemma direct_routes0:
  "routes (routers (get (fresh n) root ''/api/time'' (HFn h)) root) =
     [\<lparr> route_router = root, route_method = GET, inputPath = ''/api/time'', fixedPath = ''/api/time/'',
        route_handler = HFn h, isMiddleware = False, routeIndex = n \<rparr>]"
  by (simp add: fresh_def newRouter_def get_def addHandler_simp fixPath_api_time)

lemma mounted_matches:
  "findMatchingRoutes U (Suc d) (mounted n h) q root =
    Inr (if U ''/api/time/'' (req_path q) \<noteq> None \<and> req_method q = GET
         then [\<lparr> m_route = timeRoute (n + 1) h, m_match = U ''/api/time/'' (req_path q) \<rparr>] else [])"
  unfolding findMatchingRoutes_def mounted_root
  by (simp add: mountRoute_def mounted_api matchesRequest_def timeRoute_def)

lemma direct_matches:
  "findMatchingRoutes U d (get (fresh n) root ''/api/time'' (HFn h)) q root =
    Inr (if U ''/api/time/'' (req_path q) \<noteq> None \<and> req_method q = GET
         then [\<lparr> m_route = \<lparr> route_router = root, route_method = GET, inputPath = ''/api/time'',
                             fixedPath = ''/api/time/'', route_handler = HFn h, isMiddleware = False,
                             routeIndex = n \<rparr>,
                 m_match = U ''/api/time/'' (req_path q) \<rparr>] else [])"
  unfolding findMatchingRoutes_def direct_routes0
  by (simp add: matchesRequest_def)

lemma use_L_mount:
  "\<exists>W. use_L (Suc s) fresh_L root (Inl ''/api'') (Some (HRouter api)) = Inr W \<and>
       W root = \<lparr> routes_L = [mountRoute_L], basePath_L = None, customResponseBuilder_L = None \<rparr> \<and>
       W api = \<lparr> routes_L = [], basePath_L = Some ''/api'', customResponseBuilder_L = None \<rparr>"
  by (simp add: use_L_def Let_def fresh_L_def newRouter_L_def fixUsePath_api orEmpty_def newRoute_L_def refreshRoutes_def
        api_neq_root mountRoute_L_def)

lemma mounted_matches_L:
  assumes "W root = \<lparr> routes_L = [mountRoute_L], basePath_L = None, customResponseBuilder_L = None \<rparr>"
      and "W api = \<lparr> routes_L = [], basePath_L = Some ''/api'', customResponseBuilder_L = None \<rparr>"
  shows "getMatchingRoutesByPath U (Suc d) (get_L W api ''/time'' (HFn h)) root p =
     Inr (case U ''/api/time/'' p of None \<Rightarrow> []
          | Some m \<Rightarrow> [\<lparr> ml_route = \<lparr> router_L = api, method_L = GET, rawInput = ''/time'', fixed = ''/api/time/'',
                 handler_L = HFn h, isMiddleware_L = False \<rparr>, ml_match = m \<rparr>])"
  by (simp add: getMatchingRoutesByPath_def get_L_def addPathHandler_def newRoute_L_def assms fixHandlerPath_time_below_api api_neq_root mountRoute_L_def
       split: option.splits)

lemma direct_matches_L:
  "getMatchingRoutesByPath U d (get_L fresh_L root ''/api/time'' (HFn h)) root p =
     Inr (case U ''/api/time/'' p of None \<Rightarrow> []
          | Some m \<Rightarrow> [\<lparr> ml_route = \<lparr> router_L = root, method_L = GET, rawInput = ''/api/time'', fixed = ''/api/time/'',
                 handler_L = HFn h, isMiddleware_L = False \<rparr>, ml_match = m \<rparr>])"
  by (simp add: getMatchingRoutesByPath_def get_L_def addPathHandler_def newRoute_L_def fresh_L_def newRouter_L_def fixHandlerPath_api_time
       split: option.splits)

text \<open>
  C5, mounting a router at \<^verbatim>\<open>/api\<close> and then registering \<^verbatim>\<open>GET /time\<close> on it matches as
  registering \<^verbatim>\<open>GET /api/time\<close> on the root does. For every pattern matcher, request,
  handler and route counter, matching from the root succeeds in both stores and selects
  the same routes: method, fixed path, handler, middleware flag and parameters agree.
  This holds of the rewrite of part_001 and of the legacy router.
\<close>

theorem mount_then_register_equals_direct:
  "(\<exists>ms ms'. findMatchingRoutes U (Suc d) (mounted n h) q root = Inr ms \<and>
              findMatchingRoutes U d' (get (fresh n) root ''/api/time'' (HFn h)) q root = Inr ms' \<and>
              map selection ms = map selection ms') \<and>
   (\<exists>W ms ms'. use_L (Suc s) fresh_L root (Inl ''/api'') (Some (HRouter api)) = Inr W \<and>
              getMatchingRoutesByPath U (Suc d) (get_L W api ''/time'' (HFn h)) root p = Inr ms \<and>
              getMatchingRoutesByPath U d' (get_L fresh_L root ''/api/time'' (HFn h)) root p = Inr ms' \<and>
              map selection_L ms = map selection_L ms')"
proof -
  have a: "\<exists>ms ms'. findMatchingRoutes U (Suc d) (mounted n h) q root = Inr ms \<and>
              findMatchingRoutes U d' (get (fresh n) root ''/api/time'' (HFn h)) q root = Inr ms' \<and>
              map selection ms = map selection ms'"
    unfolding mounted_matches direct_matches by (simp add: selection_def timeRoute_def)
  obtain W where W: "use_L (Suc s) fresh_L root (Inl ''/api'') (Some (HRouter api)) = Inr W"
     "W root = \<lparr> routes_L = [mountRoute_L], basePath_L = None, customResponseBuilder_L = None \<rparr>"
     "W api = \<lparr> routes_L = [], basePath_L = Some ''/api'', customResponseBuilder_L = None \<rparr>"
    using use_L_mount by blast
  have "\<exists>ms ms'.
              getMatchingRoutesByPath U (Suc d) (get_L W api ''/time'' (HFn h)) root p = Inr ms \<and>
              getMatchingRoutesByPath U d' (get_L fresh_L root ''/api/time'' (HFn h)) root p = Inr ms' \<and>
              map selection_L ms = map selection_L ms'"
    unfolding mounted_matches_L[OF W(2,3)] direct_matches_L
    by (simp add: selection_L_def split: option.splits)
  then have b: "\<exists>W ms ms'. use_L (Suc s) fresh_L root (Inl ''/api'') (Some (HRouter api)) = Inr W \<and>
              getMatchingRoutesByPath U (Suc d) (get_L W api ''/time'' (HFn h)) root p = Inr ms \<and>
              getMatchingRoutesByPath U d' (get_L fresh_L root ''/api/time'' (HFn h)) root p = Inr ms' \<and>
              map selection_L ms = map selection_L ms'"
    using W(1) by blast
  show ?thesis using a b by (rule conjI)
qed

section \<open>C6: the main router\<close>

text \<open>
  C6, at most one router of a tree is the main router and marking a second one is an
  error: marking a second one succeeds. With a router mounted at \<^verbatim>\<open>/api\<close> below the root,
  marking the root and then the mounted router leaves both marked; and after the root
  has served a request, \<^verbatim>\<open>serveRequest\<close> on the mounted router marks it too and answers
  the request.
\<close>

theorem two_main_routers:
  "(case assignSelfAsMainRouter (mounted 0 13) root of
      Inl e \<Rightarrow> False
    | Inr w1 \<Rightarrow>
        (case assignSelfAsMainRouter w1 api of
           Inl e \<Rightarrow> False
         | Inr w2 \<Rightarrow> isMainRouter (routers w2 root) \<and> isMainRouter (routers w2 api) \<and>
                      parentRouter (routers w2 api) = Some root)) \<and>
   (let w1 = snd (serveRequest patternMatcher (\<lambda>_. sendsText ''ok'') hostPathname workerRuntime (Suc 0) (mounted 0 13) root
                    \<lparr> in_url = ''https://x/api/time'', in_method = None \<rparr>);
        (d, w2) = serveRequest patternMatcher (\<lambda>_. sendsText ''ok'') hostPathname workerRuntime (Suc 0) w1 api
                    \<lparr> in_url = ''https://x/api/time'', in_method = None \<rparr>
    in isMainRouter (routers w2 root) \<and> isMainRouter (routers w2 api) \<and>
       parentRouter (routers w2 api) = Some root \<and>
       outcome d = Resolved \<lparr> b_tasks = [],
                               b_response = Some (Response (Some ''ok'') 200 ''OK'' [(''content-type'', ''text/plain'')]) \<rparr>)"
proof -
  let ?inc = "\<lparr> in_url = ''https://x/api/time'', in_method = None \<rparr>"
  let ?F = "\<lambda>_::nat. sendsText ''ok''"
  define w1 where "w1 = updRouter (mounted 0 13) root (\<lambda>r. r\<lparr>isMainRouter := True\<rparr>)"
  define w2 where "w2 = updRouter w1 api (\<lambda>r. r\<lparr>isMainRouter := True\<rparr>)"
  have r1: "routers w1 root = \<lparr> basePath = ''/'', routes = [mountRoute 0], parentRouter = None,
                 mainRouter = None, isMainRouter = True, customResponseBuilder = None \<rparr>"
    and a1: "routers w1 api = \<lparr> basePath = ''/api/'', routes = [timeRoute 1 13], parentRouter = Some root,
                 mainRouter = None, isMainRouter = False, customResponseBuilder = None \<rparr>"
    by (simp_all add: w1_def updRouter_def mounted_root mounted_api[of 0, simplified] api_neq_root)
  have r2: "routers w2 root = \<lparr> basePath = ''/'', routes = [mountRoute 0], parentRouter = None,
                 mainRouter = None, isMainRouter = True, customResponseBuilder = None \<rparr>"
    and a2: "routers w2 api = \<lparr> basePath = ''/api/'', routes = [timeRoute 1 13], parentRouter = Some root,
                 mainRouter = None, isMainRouter = True, customResponseBuilder = None \<rparr>"
    by (simp_all add: w2_def updRouter_def r1 a1 api_neq_root)
  have s1: "assignSelfAsMainRouter (mounted 0 13) root = Inr w1"
    by (simp add: assignSelfAsMainRouter_def mounted_root w1_def)
  have s2: "assignSelfAsMainRouter w1 api = Inr w2"
    by (simp add: assignSelfAsMainRouter_def a1 w2_def)
  have first: "(case assignSelfAsMainRouter (mounted 0 13) root of
      Inl e \<Rightarrow> False
    | Inr w1 \<Rightarrow>
        (case assignSelfAsMainRouter w1 api of
           Inl e \<Rightarrow> False
         | Inr w2 \<Rightarrow> isMainRouter (routers w2 root) \<and> isMainRouter (routers w2 api) \<and>
                      parentRouter (routers w2 api) = Some root))"
    by (simp add: s1 s2 r2 a2)
  define reqT where "reqT = \<lparr> req_url = ''https://x/api/time/'', req_path = ''/api/time/'', req_method = GET,
       matchedParams = None, req_matchedRoute = None \<rparr>"
  have q: "newRouterRequest hostPathname ?inc = Inr reqT"
    by (simp add: newRouterRequest_def fixRequestUrl_def hostPathname_def startsWith_def slice_def reqT_def Let_def)
  have nb1: "\<forall>i. customResponseBuilder (routers w1 i) = None"
    by (simp add: w1_def updRouter_def mounted_def use_api addHandler_simp get_def newRouter_def)
  have nb2: "\<forall>i. customResponseBuilder (routers w2 i) = None"
    using nb1 by (simp add: w2_def updRouter_def)
  have sv1: "snd (serveRequest patternMatcher ?F hostPathname workerRuntime (Suc 0) (mounted 0 13) root ?inc) = w1"
    by (simp add: serveRequest_def mounted_root s1 q Let_def processRequest_store[OF nb1])
  have m: "getMainRouter (Suc 0) w2 api = Inr root"
    by (simp add: getMainRouter.simps a2 r2)
  define cT where "cT = (reqT\<lparr>matchedParams := Some [], req_matchedRoute := Some (timeRoute 1 13)\<rparr>,
      sendText ''ok'' (newRouterResponse\<lparr>res_matchedRoute := Some (timeRoute 1 13)\<rparr>))"
  have fin: "finishResponse workerRuntime (Suc 0) w2 api cT =
     (Resolved \<lparr> b_tasks = [],
                 b_response = Some (Response (Some ''ok'') 200 ''OK'' [(''content-type'', ''text/plain'')]) \<rparr>, cT, w2)"
    by (simp add: finishResponse_def m build_def cT_def timeRoute_def r2 sendText_def setContentType_def
          newRouterResponse_def setKey_def workerRuntime_def)
  have found: "findMatchingRoutes patternMatcher (Suc 0) w2 reqT api = Inr [\<lparr> m_route = timeRoute 1 13, m_match = Some [] \<rparr>]"
    by (simp add: findMatchingRoutes_def a2 timeRoute_def matchesRequest_def patternMatcher_def special_def reqT_def)
  have call: "callResponseHandler ?F (HFn 13)
        (reqT\<lparr>matchedParams := Some [], req_matchedRoute := Some (timeRoute 1 13)\<rparr>,
         newRouterResponse\<lparr>res_matchedRoute := Some (timeRoute 1 13)\<rparr>) = (Inr (), cT)"
    by (simp add: callResponseHandler_def sendsText_def cT_def)
  have th: "route_handler (timeRoute 1 13) = HFn 13" "\<not> isMiddleware (timeRoute 1 13)"
    by (simp_all add: timeRoute_def)
  have pr: "outcome (processRequest patternMatcher ?F workerRuntime (Suc 0) w2 api (reqT, newRouterResponse)) =
       Resolved \<lparr> b_tasks = [],
                  b_response = Some (Response (Some ''ok'') 200 ''OK'' [(''content-type'', ''text/plain'')]) \<rparr>"
    by (simp add: processRequest_def found firstTruthy_def th call fin)
  have sv2: "serveRequest patternMatcher ?F hostPathname workerRuntime (Suc 0) w1 api ?inc =
      (processRequest patternMatcher ?F workerRuntime (Suc 0) w2 api (reqT, newRouterResponse), w2)"
    by (simp add: serveRequest_def a1 s2 q Let_def processRequest_store[OF nb2])
  show ?thesis
    unfolding sv1 Let_def sv2 using first by (simp add: pr r2 a2)
qed

section \<open>C8: building a response twice\<close>

text \<open>
  A custom response builder is stateless when a call leaves the builder and the response
  object as they were. Then \<^verbatim>\<open>build\<close> changes nothing.
\<close>

lemma same_builder_again:
  assumes "customResponseBuilder (routers w main) = Some b"
  shows "updRouter w main (\<lambda>r. r\<lparr>customResponseBuilder := Some b\<rparr>) = w"
proof -
  have "(routers w main)\<lparr>customResponseBuilder := Some b\<rparr> = routers w main"
    using assms by simp
  then show ?thesis by (simp add: updRouter_def)
qed

lemma same_builder_again_L:
  assumes "customResponseBuilder_L (w i) = Some b"
  shows "w(i := (w i)\<lparr>customResponseBuilder_L := Some b\<rparr>) = w"
proof -
  have "(w i)\<lparr>customResponseBuilder_L := Some b\<rparr> = w i"
    using assms by simp
  then show ?thesis by simp
qed

lemma build_frame:
  assumes "\<forall>i b. customResponseBuilder (routers w i) = Some b \<longrightarrow>
                  (\<forall>r. after b r = b \<and> snd (answer b r) = r)"
  shows "snd (build H stack w c) = (c, w)"
proof -
  obtain q r where c: "c = (q, r)" by (cases c)
  show ?thesis
  proof (cases "req_matchedRoute q")
    case None
    then show ?thesis by (simp add: build_def c)
  next
    case (Some matched)
    show ?thesis
    proof (cases "getMainRouter stack w (route_router matched)")
      case (Inl e)
      then show ?thesis by (simp add: build_def c Some)
    next
      case (Inr main)
      show ?thesis
      proof (cases "customResponseBuilder (routers w main)")
        case None
        then show ?thesis
          by (simp add: build_def c Some Inr split: sum.splits)
      next
        case (Some b)
        then have s: "after b r = b" "snd (answer b r) = r" using assms by blast+
        obtain x where a: "answer b r = (x, r)" using s(2) by (cases "answer b r") simp
        show ?thesis
          by (simp add: build_def c \<open>req_matchedRoute q = Some matched\<close> Inr Some a s(1)
                same_builder_again[OF Some] split: sum.splits)
      qed
    qed
  qed
qed

lemma build_L_frame:
  assumes "\<forall>i b. customResponseBuilder_L (w i) = Some b \<longrightarrow>
                  (\<forall>r. after b r = b \<and> snd (answer b r) = r)"
  shows "snd (build_L H w c) = (c, w)"
proof -
  obtain q r where c: "c = (q, r)" by (cases c)
  show ?thesis
  proof (cases "customResponseBuilder_L (w (res_router_L r))")
    case None
    then show ?thesis
      by (simp add: build_L_def c split: sum.splits option.splits)
  next
    case (Some b)
    then have s: "after b r = b" "snd (answer b r) = r" using assms by blast+
    obtain x where a: "answer b r = (x, r)" using s(2) by (cases "answer b r") simp
    show ?thesis
      by (simp add: build_L_def c Some a s(1) same_builder_again_L[where w = w and i = "res_router_L r", OF Some]
            split: sum.splits option.splits)
  qed
qed

text \<open>
  C8, building twice gives the same artifact: when every custom response builder that
  is set is stateless, and so when none is set, the second of two \<^verbatim>\<open>build\<close> calls in a
  row returns what the first returned, error or artifact, and both leave the request, the
  response and the store as they were. This holds of the rewrite and of the legacy
  router.
\<close>

theorem build_twice_same:
  assumes "\<forall>i b. customResponseBuilder (routers w i) = Some b \<longrightarrow>
                  (\<forall>r. after b r = b \<and> snd (answer b r) = r)"
      and "\<forall>i b. customResponseBuilder_L (wl i) = Some b \<longrightarrow>
                  (\<forall>r. after b r = b \<and> snd (answer b r) = r)"
  shows "(let (first, c1, w1) = build H stack w c;
              (second, c2, w2) = build H stack w1 c1
          in second = first \<and> c1 = c \<and> w1 = w \<and> c2 = c \<and> w2 = w) \<and>
         (let (first, c1, w1) = build_L H wl cl;
              (second, c2, w2) = build_L H w1 c1
          in second = first \<and> c1 = cl \<and> w1 = wl \<and> c2 = cl \<and> w2 = wl)"
proof -
  obtain first where a: "build H stack w c = (first, c, w)"
    using build_frame[OF assms(1), of H stack c] by (cases "build H stack w c") simp
  obtain first' where b: "build_L H wl cl = (first', cl, wl)"
    using build_L_frame[OF assms(2), of H cl] by (cases "build_L H wl cl") simp
  show ?thesis by (simp add: a b)
qed

text \<open>
  C8 at a concrete input: routers whose custom response builder answers the same
  response every time.
\<close>

theorem build_twice_same_witness:
  "(let (first, c1, w1) = build workerRuntime 0 constantWorld ctxX;
        (second, c2, w2) = build workerRuntime 0 w1 c1
    in second = first \<and> c1 = ctxX \<and> w1 = constantWorld \<and> c2 = ctxX \<and> w2 = constantWorld) \<and>
   (let (first, c1, w1) = build_L workerRuntime constantWorld_L (reqX_L, newRouterResponse_L root);
        (second, c2, w2) = build_L workerRuntime w1 c1
    in second = first \<and> c1 = (reqX_L, newRouterResponse_L root) \<and> w1 = constantWorld_L \<and>
       c2 = (reqX_L, newRouterResponse_L root) \<and> w2 = constantWorld_L) \<and>
   fst (build workerRuntime 0 constantWorld ctxX) = Inr \<lparr> b_tasks = [], b_response = Some (Custom 0) \<rparr>"
proof -
  have a: "\<forall>i b. customResponseBuilder (routers constantWorld i) = Some b \<longrightarrow>
                  (\<forall>r. after b r = b \<and> snd (answer b r) = r)"
    by (simp add: constantWorld_def updRouter_def mainWorld_def newRouter_def)
  have b: "\<forall>i b. customResponseBuilder_L (constantWorld_L i) = Some b \<longrightarrow>
                  (\<forall>r. after b r = b \<and> snd (answer b r) = r)"
    by (simp add: constantWorld_L_def)
  have m: "getMainRouter 0 constantWorld root = Inr root"
    by (simp add: getMainRouter.simps constantWorld_def updRouter_def mainWorld_def)
  have cb: "customResponseBuilder (routers constantWorld root) = Some (fixedAnswer (Custom 0))"
    by (simp add: constantWorld_def updRouter_def)
  have c: "fst (build workerRuntime 0 constantWorld ctxX) = Inr \<lparr> b_tasks = [], b_response = Some (Custom 0) \<rparr>"
    by (simp add: build_def ctxX_def route_fields m cb newRouterResponse_def)
  show ?thesis
    using build_twice_same[OF a b, where H = workerRuntime and stack = 0 and c = ctxX
            and cl = "(reqX_L, newRouterResponse_L root)"] c
    by simp
qed

text \<open>
  C8 does not hold of every builder, and no second \<^verbatim>\<open>build\<close> is refused: with a custom
  response builder that counts its calls and leaves the response object alone, the two
  \<^verbatim>\<open>build\<close> calls return different responses for the same request and response state,
  in the rewrite and in the legacy router.
\<close>

theorem build_twice_differs:
  "(let (first, c1, w1) = build workerRuntime 0 countingWorld ctxX;
        (second, c2, w2) = build workerRuntime 0 w1 c1
    in first = Inr \<lparr> b_tasks = [], b_response = Some (Custom 0) \<rparr> \<and>
       second = Inr \<lparr> b_tasks = [], b_response = Some (Custom 1) \<rparr> \<and>
       c1 = ctxX \<and> c2 = ctxX) \<and>
   (let (first, c1, w1) = build_L workerRuntime countingWorld_L (reqX_L, newRouterResponse_L root);
        (second, c2, w2) = build_L workerRuntime w1 c1
    in first = Inr \<lparr> b_tasks = [], b_response = Some (Custom 0) \<rparr> \<and>
       second = Inr \<lparr> b_tasks = [], b_response = Some (Custom 1) \<rparr> \<and>
       c1 = (reqX_L, newRouterResponse_L root) \<and> c2 = (reqX_L, newRouterResponse_L root))"
proof -
  define w1 where "w1 = updRouter countingWorld root (\<lambda>r. r\<lparr>customResponseBuilder := Some (counting (Suc 0))\<rparr>)"
  have m0: "getMainRouter 0 countingWorld root = Inr root"
    by (simp add: getMainRouter.simps countingWorld_def updRouter_def mainWorld_def)
  have m1: "getMainRouter 0 w1 root = Inr root"
    by (simp add: getMainRouter.simps w1_def countingWorld_def updRouter_def mainWorld_def)
  have b0: "customResponseBuilder (routers countingWorld root) = Some (counting 0)"
    by (simp add: countingWorld_def updRouter_def)
  have b1: "customResponseBuilder (routers w1 root) = Some (counting (Suc 0))"
    by (simp add: w1_def updRouter_def)
  have first: "build workerRuntime 0 countingWorld ctxX =
                 (Inr \<lparr> b_tasks = [], b_response = Some (Custom 0) \<rparr>, ctxX, w1)"
    by (simp add: build_def ctxX_def route_fields m0 b0 newRouterResponse_def w1_def)
  have second: "build workerRuntime 0 w1 ctxX =
                 (Inr \<lparr> b_tasks = [], b_response = Some (Custom 1) \<rparr>, ctxX,
                  updRouter w1 root (\<lambda>r. r\<lparr>customResponseBuilder := Some (counting (Suc (Suc 0)))\<rparr>))"
    by (simp add: build_def ctxX_def route_fields m1 b1 newRouterResponse_def)
  define wl1 where "wl1 = countingWorld_L(root := (countingWorld_L root)\<lparr>customResponseBuilder_L := Some (counting (Suc 0))\<rparr>)"
  have first_L: "build_L workerRuntime countingWorld_L (reqX_L, newRouterResponse_L root) =
                 (Inr \<lparr> b_tasks = [], b_response = Some (Custom 0) \<rparr>, (reqX_L, newRouterResponse_L root), wl1)"
    by (simp add: build_L_def countingWorld_L_def newRouterResponse_L_def wl1_def)
  have second_L: "build_L workerRuntime wl1 (reqX_L, newRouterResponse_L root) =
                 (Inr \<lparr> b_tasks = [], b_response = Some (Custom 1) \<rparr>, (reqX_L, newRouterResponse_L root),
                  wl1(root := (wl1 root)\<lparr>customResponseBuilder_L := Some (counting (Suc (Suc 0)))\<rparr>))"
    by (simp add: build_L_def wl1_def countingWorld_L_def newRouterResponse_L_def)
  show ?thesis
    by (simp add: first second first_L second_L)
qed

section \<open>C9: a middleware that aborts\<close>

text \<open>
  A middleware that passes \<open>False\<close> to its continuation ends the chain: no later
  middleware and no response handler run, and the response is finished.
\<close>

lemma runMiddlewares_stops_at_abort:
  assumes "exec m c = (Resolved False, c')"
  shows "runMiddlewares exec (m # rest) c acc = (Resolved False, c', acc @ [m])"
  using assms by simp

lemma aborted_chain_skips_terminal:
  assumes "findMatchingRoutes U stack w q this = Inr found"
      and "firstTruthy (filter (\<lambda>m. \<not> isMiddleware (m_route m)) found) = Some rh"
      and "runMiddlewares (executeMiddleware F)
             (map m_route (sort_key (\<lambda>m. routeIndex (m_route m))
                (filter (\<lambda>m. \<not> isHandlerRouter (m_route m))
                   (filter (\<lambda>m. isMiddleware (m_route m)) found))))
             (q\<lparr>matchedParams := m_match rh, req_matchedRoute := Some (m_route rh)\<rparr>,
              r\<lparr>res_matchedRoute := Some (m_route rh)\<rparr>) [] = (Resolved False, c2, ss)"
  shows "processRequest U F H stack w this (q, r) =
           \<lparr> outcome = fst (finishResponse H stack w this c2),
             contexts = Some (fst (snd (finishResponse H stack w this c2))),
             store = snd (snd (finishResponse H stack w this c2)),
             steps = ss, terminalRan = False \<rparr>"
  using assms by (simp add: processRequest_def Let_def split: prod.splits)

text \<open>
  C9, a middleware that aborts by throwing lets no later middleware and no response
  handler run and the response is finished: nothing later runs, but the response is not
  finished either. A middleware with a continuation parameter that throws leaves the
  dispatch pending for ever, in the rewrite of part_001 and in the legacy router.
\<close>

theorem throwing_middleware_leaves_dispatch_pending:
  "(let d = fst (serveRequest patternMatcher F_throw hostPathname workerRuntime 0 (twoMiddlewares use) root inX)
    in outcome d = Pending \<and> steps d = [mw 0 11] \<and> \<not> terminalRan d) \<and>
   (let d = serveRequest_L patternMatcher (\<lambda>_. throws 3) hostPathname workerRuntime 0 oneMiddleware_L root inX
    in outcome d = Pending \<and> steps d = [mw_L] \<and> \<not> terminalRan d)"
proof -
  have e: "executeMiddleware F_throw (mw 0 11) c = (Pending, c)" for c
    by (simp add: executeMiddleware_def route_fields F_throw_def throws_def)
  have r: "runMiddlewares (executeMiddleware F_throw) [mw 0 11, mw 1 12] ctxX [] = (Pending, ctxX, [mw 0 11])"
    by (simp add: e)
  have a: "(let d = fst (serveRequest patternMatcher F_throw hostPathname workerRuntime 0 (twoMiddlewares use) root inX)
    in outcome d = Pending \<and> steps d = [mw 0 11] \<and> \<not> terminalRan d)"
    unfolding serve_two process_two r by (simp add: Let_def)
  have e': "executeMiddleware_L (\<lambda>_. throws 3) mw_L c = (Pending, c)" for c
    by (simp add: executeMiddleware_L_def route_fields_L throws_def)
  have b: "(let d = serveRequest_L patternMatcher (\<lambda>_. throws 3) hostPathname workerRuntime 0 oneMiddleware_L root inX
    in outcome d = Pending \<and> steps d = [mw_L] \<and> \<not> terminalRan d)"
    by (simp add: serveRequest_L_def req_x_L processRequest_L_def route_fields_L found_x_L firstTruthy_def
          isRouteHandlerRouter_def e' Let_def)
  show ?thesis using a b by (rule conjI)
qed

section \<open>C10: a route with the fixed path \<^verbatim>\<open>*\<close>\<close>

lemma getMatching_loop_keeps:
  "getMatchingRoutesByPath_loop U stack w p acc rs = Inr ms \<Longrightarrow> set acc \<subseteq> set ms"
proof (induction U stack w p acc rs arbitrary: ms rule: getMatchingRoutesByPath_loop.induct)
  case (1 U stack w totalPath fillArray)
  then show ?case by simp
next
  case (2 U stack w totalPath fillArray r rest)
  show ?case
  proof (cases "handler_L r")
    case (HFn h)
    show ?thesis
    proof (cases "U (fixed r) totalPath")
      case None
      then show ?thesis using "2.IH" "2.prems" HFn by (auto split: if_splits)
    next
      case (Some m)
      then show ?thesis using "2.IH" "2.prems" HFn by auto
    qed
  next
    case (HRouter child)
    show ?thesis
    proof (cases stack)
      case 0
      then show ?thesis using "2.prems" HRouter by simp
    next
      case (Suc n)
      then obtain sub where sub: "getMatchingRoutesByPath_loop U n w totalPath fillArray (routes_L (w child)) = Inr sub"
        using "2.prems" HRouter by (auto split: sum.splits)
      have "set fillArray \<subseteq> set sub" using "2.IH"(4)[OF HRouter Suc sub] .
      moreover have "set sub \<subseteq> set ms" using "2.IH"(5)[OF HRouter Suc sub] "2.prems" HRouter Suc sub by simp
      ultimately show ?thesis by blast
    qed
  qed
qed

lemma getMatching_loop_visits_star:
  "getMatchingRoutesByPath_loop U stack w p acc rs = Inr ms \<Longrightarrow> r \<in> set (routesVisited stack w rs) \<Longrightarrow>
   fixed r = ''*'' \<Longrightarrow>
   \<lparr> ml_route = r, ml_match = (case U ''*'' p of None \<Rightarrow> [] | Some m \<Rightarrow> m) \<rparr> \<in> set ms"
proof (induction U stack w p acc rs arbitrary: ms rule: getMatchingRoutesByPath_loop.induct)
  case (1 U stack w totalPath fillArray)
  then show ?case by simp
next
  case (2 U stack w totalPath fillArray r' rest)
  note run = "2.prems"(1) and mem = "2.prems"(2) and star = "2.prems"(3)
  let ?e = "\<lparr> ml_route = r, ml_match = (case U ''*'' totalPath of None \<Rightarrow> [] | Some m \<Rightarrow> m) \<rparr>"
  show ?case
  proof (cases "handler_L r'")
    case (HFn h')
    show ?thesis
    proof (cases "r = r'")
      case True
      have "getMatchingRoutesByPath_loop U stack w totalPath (fillArray @ [?e]) rest = Inr ms"
        using run star True HFn by (auto split: option.splits)
      then have "set (fillArray @ [?e]) \<subseteq> set ms" by (rule getMatching_loop_keeps)
      then show ?thesis by simp
    next
      case False
      then have mem': "r \<in> set (routesVisited stack w rest)" using mem HFn by simp
      show ?thesis
      proof (cases "U (fixed r') totalPath")
        case None
        then show ?thesis using "2.IH" run star HFn mem' by (auto split: if_splits)
      next
        case (Some m)
        then show ?thesis using "2.IH" run star HFn mem' by auto
      qed
    qed
  next
    case (HRouter child)
    show ?thesis
    proof (cases stack)
      case 0
      then show ?thesis using run HRouter by simp
    next
      case (Suc n)
      then obtain sub where sub: "getMatchingRoutesByPath_loop U n w totalPath fillArray (routes_L (w child)) = Inr sub"
        using run HRouter by (auto split: sum.splits)
      have rest: "getMatchingRoutesByPath_loop U stack w totalPath sub rest = Inr ms"
        using run HRouter Suc sub by simp
      from mem HRouter Suc
      consider (inner) "r \<in> set (routesVisited n w (routes_L (w child)))"
        | (outer) "r \<in> set (routesVisited stack w rest)"
        by auto
      then show ?thesis
      proof cases
        case inner
        have "?e \<in> set sub" using "2.IH"(4)[OF HRouter Suc sub inner star] .
        moreover have "set sub \<subseteq> set ms" using rest by (rule getMatching_loop_keeps)
        ultimately show ?thesis by blast
      next
        case outer
        show ?thesis using "2.IH"(5)[OF HRouter Suc sub rest outer star] .
      qed
    qed
  qed
qed


lemma direct_routes_visited:
  "getMatchingRoutesByPath_loop U stack w p acc rs = Inr ms \<Longrightarrow> r \<in> set rs \<Longrightarrow>
   handler_L r = HFn h \<Longrightarrow> r \<in> set (routesVisited stack w rs)"
proof (induction U stack w p acc rs arbitrary: ms rule: getMatchingRoutesByPath_loop.induct)
  case (1 U stack w totalPath fillArray)
  then show ?case by simp
next
  case (2 U stack w totalPath fillArray r' rest)
  note run = "2.prems"(1) and mem = "2.prems"(2) and fn = "2.prems"(3)
  show ?case
  proof (cases "handler_L r'")
    case (HFn h')
    show ?thesis
    proof (cases "r = r'")
      case True
      then show ?thesis using HFn by simp
    next
      case False
      then have mem': "r \<in> set rest" using mem by simp
      show ?thesis
      proof (cases "U (fixed r') totalPath")
        case None
        then show ?thesis using "2.IH" run fn HFn mem' by (auto split: if_splits)
      next
        case (Some m)
        then show ?thesis using "2.IH" run fn HFn mem' by auto
      qed
    qed
  next
    case (HRouter child)
    then have mem': "r \<in> set rest" using mem fn by auto
    show ?thesis
    proof (cases stack)
      case 0
      then show ?thesis using run HRouter by simp
    next
      case (Suc n)
      then obtain sub where sub: "getMatchingRoutesByPath_loop U n w totalPath fillArray (routes_L (w child)) = Inr sub"
        using run HRouter by (auto split: sum.splits)
      have rest: "getMatchingRoutesByPath_loop U stack w totalPath sub rest = Inr ms"
        using run HRouter Suc sub by simp
      have "r \<in> set (routesVisited stack w rest)"
        using "2.IH"(5)[OF HRouter Suc sub rest mem' fn] .
      then show ?thesis using HRouter Suc by simp
    qed
  qed
qed

text \<open>
  C10, in the legacy router a route whose fixed path is \<^verbatim>\<open>*\<close> is among the matches of
  every path for which matching returns, be it a route of the router itself or of a
  router mounted below it: with the parameters of the pattern when the pattern matches
  the path, with empty parameters when it does not; and it is still among them after the
  filter by its own method.
\<close>

theorem star_route_matches_every_path:
  assumes "getMatchingRoutesByPath U stack w this totalPath = Inr ms"
    and "r \<in> set (routesVisited stack w (routes_L (w this)))" and "fixed r = ''*''"
  shows "\<lparr> ml_route = r, ml_match = (case U ''*'' totalPath of None \<Rightarrow> [] | Some m \<Rightarrow> m) \<rparr> \<in> set ms \<and>
         (case getMatchingRoutesByPathAndMethod U stack w this totalPath (method_L r) of
            Inl e \<Rightarrow> False
          | Inr ms' \<Rightarrow>
              \<lparr> ml_route = r, ml_match = (case U ''*'' totalPath of None \<Rightarrow> [] | Some m \<Rightarrow> m) \<rparr> \<in> set ms')"
proof -
  let ?e = "\<lparr> ml_route = r, ml_match = (case U ''*'' totalPath of None \<Rightarrow> [] | Some m \<Rightarrow> m) \<rparr>"
  have e: "?e \<in> set ms"
    using assms unfolding getMatchingRoutesByPath_def by (rule getMatching_loop_visits_star)
  then show ?thesis
    using assms(1) by (simp add: getMatchingRoutesByPathAndMethod_def)
qed

text \<open>
  C10 at a concrete input: a handler registered on \<^verbatim>\<open>*\<close> and the path \<^verbatim>\<open>/x/\<close>. The
  pattern matches the path, so the route is matched with the parameter \<^verbatim>\<open>_\<close>.
\<close>

theorem star_route_witness:
  "\<lparr> ml_route = starRoute, ml_match = [(''_'', ''/x/'')] \<rparr>
     \<in> set [\<lparr> ml_route = starRoute, ml_match = [(''_'', ''/x/'')] \<rparr>] \<and>
   getMatchingRoutesByPath patternMatcher 0 (get_L fresh_L root ''*'' (HFn 13)) root ''/x/''
     = Inr [\<lparr> ml_route = starRoute, ml_match = [(''_'', ''/x/'')] \<rparr>] \<and>
   getMatchingRoutesByPathAndMethod patternMatcher 0 (get_L fresh_L root ''*'' (HFn 13)) root ''/x/'' GET
     = Inr [\<lparr> ml_route = starRoute, ml_match = [(''_'', ''/x/'')] \<rparr>]"
proof -
  have f: "fixed starRoute = ''*''" "handler_L starRoute = HFn 13" "method_L starRoute = GET"
    by (simp_all add: starRoute_def)
  have u: "patternMatcher ''*'' ''/x/'' = Some [(''_'', ''/x/'')]"
    by (simp add: patternMatcher_def special_def startsWith_def)
  have m: "getMatchingRoutesByPath patternMatcher 0 (get_L fresh_L root ''*'' (HFn 13)) root ''/x/''
     = Inr [\<lparr> ml_route = starRoute, ml_match = [(''_'', ''/x/'')] \<rparr>]"
    by (simp add: getMatchingRoutesByPath_def star_world f u)
  have r: "starRoute \<in> set (routesVisited 0 (get_L fresh_L root ''*'' (HFn 13))
                               (routes_L ((get_L fresh_L root ''*'' (HFn 13)) root)))"
    by (simp add: star_world f)
  have am: "getMatchingRoutesByPathAndMethod patternMatcher 0 (get_L fresh_L root ''*'' (HFn 13)) root ''/x/'' GET
     = Inr [\<lparr> ml_route = starRoute, ml_match = [(''_'', ''/x/'')] \<rparr>]"
    by (simp add: getMatchingRoutesByPathAndMethod_def m f)
  show ?thesis
    using star_route_matches_every_path[OF m r f(1)] m am by (simp add: u)
qed

text \<open>
  C10 does not hold as stated: the route is not matched with an empty parameter map for
  every request path. For the path \<^verbatim>\<open>/x/\<close> the pattern \<^verbatim>\<open>*\<close> matches, and the route is
  matched with the parameter \<^verbatim>\<open>_\<close> bound to the path; the empty map is there only for a
  path that the pattern does not match.
\<close>

theorem star_route_has_parameters:
  "patternMatcher ''*'' ''/x/'' = Some [(''_'', ''/x/'')] \<and>
   getMatchingRoutesByPath patternMatcher 0 (get_L fresh_L root ''*'' (HFn 13)) root ''/x/''
     = Inr [\<lparr> ml_route = starRoute, ml_match = [(''_'', ''/x/'')] \<rparr>] \<and>
   getMatchingRoutesByPath patternMatcher 0 (get_L fresh_L root ''*'' (HFn 13)) root ''/x/''
     \<noteq> Inr [\<lparr> ml_route = starRoute, ml_match = [] \<rparr>]"
proof -
  have f: "fixed starRoute = ''*''" "handler_L starRoute = HFn 13"
    by (simp_all add: starRoute_def)
  have u: "patternMatcher ''*'' ''/x/'' = Some [(''_'', ''/x/'')]"
    by (simp add: patternMatcher_def special_def startsWith_def)
  have m: "getMatchingRoutesByPath patternMatcher 0 (get_L fresh_L root ''*'' (HFn 13)) root ''/x/''
     = Inr [\<lparr> ml_route = starRoute, ml_match = [(''_'', ''/x/'')] \<rparr>]"
    by (simp add: getMatchingRoutesByPath_def star_world f u)
  show ?thesis by (simp add: u m)
qed

end
